theory Spec2Isabelle
  imports Main "HOL-Library.Word"
begin

section \<open>withlockfile: run a command while holding an exclusive file lock\<close>

text \<open>
  A shallow embedding of \<^verbatim>\<open>withlockfile.cpp\<close>. The program is one \<^verbatim>\<open>main\<close> and two
  string helpers. Strings are byte lists, a \<^verbatim>\<open>DWORD\<close> is a 32-bit word, every call
  into the operating system is an event of a trace, and what the operating system
  answers is an input of the model (the record \<open>os\<close> below).
\<close>

unbundle bit_operations_syntax

type_synonym dword = "32 word"

subsection \<open>Strings\<close>

text \<open>The characters the source names by escape sequences.\<close>

definition NUL :: char where "NUL = CHR 0x00"
definition TAB :: char where "TAB = CHR 0x09"
definition LF :: char where "LF = CHR 0x0A"
definition CR :: char where "CR = CHR 0x0D"
definition SPACE :: char where "SPACE = CHR 0x20"
definition DQUOTE :: char where "DQUOTE = CHR 0x22"

text \<open>
  \<^verbatim>\<open>c_str()\<close> hands a \<^verbatim>\<open>std::string\<close> to C code, which reads it up to the first
  NUL byte; \<^verbatim>\<open>strlen\<close> counts those bytes.
\<close>

definition c_str :: "string \<Rightarrow> string" where
  "c_str s = takeWhile (\<lambda>c. c \<noteq> NUL) s"

text \<open>
  \<^verbatim>\<open>tolower\<close> in the "C" locale (the program never calls \<^verbatim>\<open>setlocale\<close>): only
  the letters A to Z change.
\<close>

definition tolower :: "char \<Rightarrow> char" where
  "tolower c =
     (let n = (of_char c :: nat)
      in if 65 \<le> n \<and> n \<le> 90 then char_of (n + 32) else c)"

text \<open>
  \<^verbatim>\<open>_stricmp\<close>: compares two C strings after lowering each character; the result
  is zero when they are equal, and has the sign of the first difference otherwise.
\<close>

fun stricmp :: "string \<Rightarrow> string \<Rightarrow> int" where
  "stricmp [] [] = 0"
| "stricmp [] (y # ys) = - 1"
| "stricmp (x # xs) [] = 1"
| "stricmp (x # xs) (y # ys) =
     (if tolower x = tolower y then stricmp xs ys
      else int (of_char (tolower x)) - int (of_char (tolower y)))"

text \<open>
  \<^verbatim>\<open>enforceExeExtension\<close> (lines 37 to 46). \<^verbatim>\<open>exe.substr(len - 4)\<close> is only
  evaluated when \<^verbatim>\<open>len >= 4\<close>, because \<^verbatim>\<open>||\<close> short-circuits; there it is the
  last four bytes and cannot throw.
\<close>

definition enforceExeExtension :: "string \<Rightarrow> string" where
  "enforceExeExtension s =
     (let exe = s; len = length exe
      in if len < 4 \<or> stricmp (c_str (drop (len - 4) exe)) ''.exe'' \<noteq> 0
         then exe @ ''.exe''
         else exe)"

text \<open>
  \<^verbatim>\<open>std::string::find_first_of\<close>: the index of the first character of the string
  that occurs in the given set, \<^verbatim>\<open>npos\<close> (here \<open>None\<close>) when there is none.
\<close>

fun find_first_of :: "string \<Rightarrow> string \<Rightarrow> nat option" where
  "find_first_of [] chars = None"
| "find_first_of (c # cs) chars =
     (if c \<in> set chars then Some 0
      else (case find_first_of cs chars of None \<Rightarrow> None | Some i \<Rightarrow> Some (Suc i)))"

text \<open>\<^verbatim>\<open>quoteArgument\<close> (lines 48 to 58); the set searched for is \<^verbatim>\<open>" \t"\<close>.\<close>

definition quoteArgument :: "string \<Rightarrow> string" where
  "quoteArgument arg =
     (let space = find_first_of arg [SPACE, TAB]
      in if space \<noteq> None then [DQUOTE] @ arg @ [DQUOTE] else arg)"

text \<open>
  The loop of lines 122 to 125: for \<^verbatim>\<open>i\<close> from its start value up to \<^verbatim>\<open>argc - 1\<close>, a
  blank and the quoted \<^verbatim>\<open>argv[i]\<close> are appended to the command line.
\<close>

function appendArguments :: "string list \<Rightarrow> nat \<Rightarrow> string \<Rightarrow> string" where
  "appendArguments argv i commandLine =
     (if i < length argv
      then appendArguments argv (i + 1) (commandLine @ [SPACE] @ quoteArgument (argv ! i))
      else commandLine)"
  by pat_completeness auto
termination
  by (relation "measure (\<lambda>(argv, i, commandLine). length argv - i)") auto

declare appendArguments.simps [simp del]

text \<open>Lines 120 to 126: the command line handed to \<^verbatim>\<open>CreateProcessA\<close>.\<close>

definition buildCommandLine :: "string \<Rightarrow> string list \<Rightarrow> string" where
  "buildCommandLine executable argv = appendArguments argv 3 (quoteArgument executable)"

text \<open>
  The unsigned decimal rendering that \<^verbatim>\<open>operator<<\<close> gives a \<^verbatim>\<open>DWORD\<close>.
\<close>

fun decimal :: "nat \<Rightarrow> string" where
  "decimal n =
     (if n < 10 then [char_of (48 + n)]
      else decimal (n div 10) @ [char_of (48 + n mod 10)])"

declare decimal.simps [simp del]

subsection \<open>Constants of the Windows headers\<close>

text \<open>
  The values are those of the Windows SDK headers (\<^verbatim>\<open>winerror.h\<close>, \<^verbatim>\<open>winbase.h\<close>,
  \<^verbatim>\<open>winnt.h\<close>), which the program includes.
\<close>

definition ERROR_ACCESS_DENIED :: dword where "ERROR_ACCESS_DENIED = 5"
definition ERROR_LOCK_VIOLATION :: dword where "ERROR_LOCK_VIOLATION = 33"
definition LOCKFILE_FAIL_IMMEDIATELY :: dword where "LOCKFILE_FAIL_IMMEDIATELY = 1"
definition LOCKFILE_EXCLUSIVE_LOCK :: dword where "LOCKFILE_EXCLUSIVE_LOCK = 2"
definition CREATE_SUSPENDED :: dword where "CREATE_SUSPENDED = 4"
definition JOB_OBJECT_LIMIT_KILL_ON_JOB_CLOSE :: dword where
  "JOB_OBJECT_LIMIT_KILL_ON_JOB_CLOSE = 0x2000"
definition INFINITE :: dword where "INFINITE = 0xFFFFFFFF"

subsection \<open>Handles, structures and failures\<close>

text \<open>
  A \<^verbatim>\<open>HANDLE\<close> is opaque. The operating system never gives the same value to two
  objects that are open together, so a handle is tagged with the kind of object it
  stands for, and the number is the one the operating system chose.
\<close>

datatype handle = FileHandle nat | ProcessHandle nat | ThreadHandle nat | JobHandle nat

datatype std_handle = STD_INPUT_HANDLE | STD_OUTPUT_HANDLE | STD_ERROR_HANDLE

record overlapped =
  Internal :: "64 word"
  InternalHigh :: "64 word"
  Offset :: dword
  OffsetHigh :: dword
  hEvent :: nat

text \<open>\<^verbatim>\<open>ZeroMemory( &ol, sizeof( ol ) )\<close> (line 80).\<close>

definition ZeroMemory :: overlapped where
  "ZeroMemory = \<lparr>Internal = 0, InternalHigh = 0, Offset = 0, OffsetHigh = 0, hEvent = 0\<rparr>"

record process_information =
  hProcess :: handle
  hThread :: handle

text \<open>
  The exceptions that reach the two handlers of \<^verbatim>\<open>main\<close>: \<^verbatim>\<open>Win32Error\<close> (lines 25
  to 35) with its \<^verbatim>\<open>what()\<close> text and its \<^verbatim>\<open>errorCode\<close>, and any other
  \<^verbatim>\<open>std::exception\<close> with its \<^verbatim>\<open>what()\<close> text.
\<close>

datatype failure = Win32Error string dword | StdException string

subsection \<open>The operating system\<close>

text \<open>
  What a call answers: \<open>Success x\<close> with the value the program uses, or \<open>Failure e\<close>
  when the call reports failure and \<^verbatim>\<open>GetLastError()\<close> then yields \<open>e\<close>.
\<close>

datatype 'a os_result = Success 'a | Failure dword

text \<open>
  The three places where the \<^verbatim>\<open>try\<close> block builds a \<^verbatim>\<open>std::string\<close>: the name of
  the executable (line 107), its qualified path (line 117) and the command line
  (lines 120 to 126). The standard library may throw there (\<^verbatim>\<open>std::bad_alloc\<close>,
  \<^verbatim>\<open>std::length_error\<close>); such an exception is a \<^verbatim>\<open>std::exception\<close> that is not a
  \<^verbatim>\<open>Win32Error\<close>. The strings built for the exception objects themselves are not
  described.
\<close>

datatype string_site = ExecutableName | ExecutablePath | CommandLine

text \<open>
  The answers of the operating system in one run. \<^verbatim>\<open>LockFileEx\<close> is called in a
  loop, so its answer depends on the number of the attempt (the loop variable
  \<^verbatim>\<open>i\<close>). \<^verbatim>\<open>CloseHandle\<close> is called at two places, on the job object (line 161) and
  on the lock file (line 192). A blocking call that never returns
  (\<^verbatim>\<open>WaitForSingleObject\<close> on a child that runs forever) is not a run that exits,
  and is not described. The last field is the answer of the standard library where
  a string is built: \<open>None\<close> when it is built, \<open>Some what\<close> when an exception with
  that \<^verbatim>\<open>what()\<close> text is thrown.
\<close>

record os =
  on_CreateFileA :: "string \<Rightarrow> nat os_result"
  on_LockFileEx :: "nat \<Rightarrow> unit os_result"
  on_PathSearchAndQualifyA :: "string \<Rightarrow> string os_result"
  on_GetStdHandle :: "std_handle \<Rightarrow> nat os_result"
  on_CreateProcessA :: "string \<Rightarrow> string \<Rightarrow> (nat \<times> nat) os_result"
  on_CreateJobObject :: "nat os_result"
  on_SetInformationJobObject :: "unit os_result"
  on_CloseHandle_jobObject :: "unit os_result"
  on_AssignProcessToJobObject :: "unit os_result"
  on_ResumeThread :: "unit os_result"
  on_WaitForSingleObject :: "unit os_result"
  on_GetExitCodeProcess :: "dword os_result"
  on_UnlockFileEx :: "unit os_result"
  on_CloseHandle_f :: "unit os_result"
  on_FormatMessageA :: "dword \<Rightarrow> string os_result"
  on_std_string :: "string_site \<Rightarrow> string option"

text \<open>The calls, with the arguments the program passes.\<close>

datatype call =
    CreateFileA string
  | LockFileEx handle dword dword dword dword overlapped
  | Sleep dword
  | PathSearchAndQualifyA string
  | GetStdHandle std_handle
  | CreateProcessA string string bool dword
  | CreateJobObject
  | SetInformationJobObject handle dword
  | CloseHandle handle
  | AssignProcessToJobObject handle handle
  | ResumeThread handle
  | WaitForSingleObject handle dword
  | GetExitCodeProcess handle
  | UnlockFileEx handle dword dword dword overlapped
  | FormatMessageA dword

text \<open>
  An event is a call and how it ended: \<open>None\<close> when it succeeded, \<open>Some e\<close> when it
  failed with last error \<open>e\<close>.
\<close>

type_synonym event = "call \<times> dword option"

fun error_of :: "'a os_result \<Rightarrow> dword option" where
  "error_of (Success x) = None"
| "error_of (Failure e) = Some e"

subsection \<open>Running with a trace and exceptions\<close>

text \<open>
  A piece of the program yields a value or throws, and leaves the events of the calls
  it made.
\<close>

type_synonym 'a exec = "(failure + 'a) \<times> event list"

definition throw :: "failure \<Rightarrow> 'a exec" where
  "throw e = (Inl e, [])"

definition return_value :: "'a \<Rightarrow> 'a exec" where
  "return_value x = (Inr x, [])"

text \<open>Making a call never throws by itself: the program tests the answer.\<close>

definition perform :: "call \<Rightarrow> 'a os_result \<Rightarrow> 'a os_result exec" where
  "perform c r = (Inr r, [(c, error_of r)])"

text \<open>Building a string: the string, or the exception of the standard library.\<close>

definition build :: "os \<Rightarrow> string_site \<Rightarrow> string \<Rightarrow> string exec" where
  "build env site s =
     (case on_std_string env site of
        Some what \<Rightarrow> throw (StdException what)
      | None \<Rightarrow> return_value s)"

text \<open>Sequencing: an exception of the first part skips the second.\<close>

definition and_then :: "'a exec \<Rightarrow> ('a \<Rightarrow> 'b exec) \<Rightarrow> 'b exec" where
  "and_then m k =
     (case m of
        (Inl e, tr) \<Rightarrow> (Inl e, tr)
      | (Inr x, tr) \<Rightarrow> (case k x of (r, tr') \<Rightarrow> (r, tr @ tr')))"

subsection \<open>The program\<close>

text \<open>
  The loop of lines 83 to 101, from the value \<open>i\<close> of the loop variable on. The value
  is \<^verbatim>\<open>lockAcquired\<close> when the loop is left.
\<close>

definition lock_call :: "handle \<Rightarrow> overlapped \<Rightarrow> call" where
  "lock_call f ol =
     LockFileEx f (LOCKFILE_EXCLUSIVE_LOCK OR LOCKFILE_FAIL_IMMEDIATELY) 0 1 0 ol"

function acquire :: "os \<Rightarrow> handle \<Rightarrow> overlapped \<Rightarrow> nat \<Rightarrow> bool exec" where
  "acquire env f ol i =
     (if i < 300 then
        and_then (perform (lock_call f ol) (on_LockFileEx env i)) (\<lambda>r.
        case r of
          Success u \<Rightarrow> return_value True
        | Failure lastError \<Rightarrow>
            if lastError = ERROR_LOCK_VIOLATION then
              and_then (perform (Sleep 1000) (Success ())) (\<lambda>u.
              acquire env f ol (i + 1))
            else throw (Win32Error ''LockFileEx'' lastError))
      else return_value False)"
  by pat_completeness auto
termination
  by (relation "measure (\<lambda>(env, f, ol, i). 300 - i)") auto

declare acquire.simps [simp del]

text \<open>
  Lines 107 to 196, after the lock has been acquired. The three strings are built
  where the source builds them, each with the exception the standard library may
  throw there. The \<^verbatim>\<open>STARTUPINFOA\<close> has
  only its size and the three standard handles set, and \<^verbatim>\<open>CreateProcessA\<close> is
  called with \<^verbatim>\<open>bInheritHandles = TRUE\<close> and \<^verbatim>\<open>CREATE_SUSPENDED\<close>. At line 162
  \<^verbatim>\<open>GetLastError()\<close> is read after \<^verbatim>\<open>CloseHandle( jobObject )\<close>: it is the error
  of that call when it failed, and still the error of \<^verbatim>\<open>SetInformationJobObject\<close>
  when it succeeded (a call that succeeds is taken to leave the last error alone).
\<close>

definition supervise :: "os \<Rightarrow> handle \<Rightarrow> overlapped \<Rightarrow> string list \<Rightarrow> dword exec" where
  "supervise env f ol argv =
     (and_then (build env ExecutableName (enforceExeExtension (argv ! 2))) (\<lambda>executable.
      and_then (perform (PathSearchAndQualifyA executable)
                  (on_PathSearchAndQualifyA env executable)) (\<lambda>r.
      case r of
        Failure e \<Rightarrow> throw (Win32Error ''PathSearchAndQualifyA'' e)
      | Success buf \<Rightarrow>
      and_then (build env ExecutablePath (c_str buf)) (\<lambda>executable.
      and_then (build env CommandLine (buildCommandLine executable argv)) (\<lambda>commandLine.
      and_then (perform (GetStdHandle STD_ERROR_HANDLE)
                  (on_GetStdHandle env STD_ERROR_HANDLE)) (\<lambda>hStdError.
      and_then (perform (GetStdHandle STD_OUTPUT_HANDLE)
                  (on_GetStdHandle env STD_OUTPUT_HANDLE)) (\<lambda>hStdOutput.
      and_then (perform (GetStdHandle STD_INPUT_HANDLE)
                  (on_GetStdHandle env STD_INPUT_HANDLE)) (\<lambda>hStdInput.
      and_then (perform (CreateProcessA executable commandLine True CREATE_SUSPENDED)
                  (on_CreateProcessA env executable commandLine)) (\<lambda>r.
      case r of
        Failure e \<Rightarrow> throw (Win32Error ''CreateProcessA'' e)
      | Success (p, t) \<Rightarrow>
      let pi = \<lparr>hProcess = ProcessHandle p, hThread = ThreadHandle t\<rparr> in
      and_then (perform CreateJobObject (on_CreateJobObject env)) (\<lambda>r.
      case r of
        Failure e \<Rightarrow> throw (Win32Error ''CreateJobObject'' e)
      | Success j \<Rightarrow>
      let jobObject = JobHandle j in
      and_then (perform (SetInformationJobObject jobObject JOB_OBJECT_LIMIT_KILL_ON_JOB_CLOSE)
                  (on_SetInformationJobObject env)) (\<lambda>r.
      case r of
        Failure e \<Rightarrow>
          and_then (perform (CloseHandle jobObject) (on_CloseHandle_jobObject env)) (\<lambda>c.
          throw (Win32Error ''SetInformationJobObject''
                   (case c of Failure e' \<Rightarrow> e' | Success u \<Rightarrow> e)))
      | Success u \<Rightarrow>
      and_then (perform (AssignProcessToJobObject jobObject (hProcess pi))
                  (on_AssignProcessToJobObject env)) (\<lambda>r.
      if (case r of Failure e \<Rightarrow> e \<noteq> ERROR_ACCESS_DENIED | Success u \<Rightarrow> False)
      then throw (Win32Error ''AssignProcessToJobObject''
                    (case r of Failure e \<Rightarrow> e | Success u \<Rightarrow> 0))
      else
      and_then (perform (ResumeThread (hThread pi)) (on_ResumeThread env)) (\<lambda>r.
      case r of
        Failure e \<Rightarrow> throw (Win32Error ''ResumeThread'' e)
      | Success u \<Rightarrow>
      and_then (perform (WaitForSingleObject (hProcess pi) INFINITE)
                  (on_WaitForSingleObject env)) (\<lambda>r.
      case r of
        Failure e \<Rightarrow> throw (Win32Error ''WaitForSingleObject'' e)
      | Success u \<Rightarrow>
      and_then (perform (GetExitCodeProcess (hProcess pi)) (on_GetExitCodeProcess env)) (\<lambda>r.
      case r of
        Failure e \<Rightarrow> throw (Win32Error ''GetExitCodeProcess'' e)
      | Success exitCode \<Rightarrow>
      and_then (perform (UnlockFileEx f 0 1 0 ol) (on_UnlockFileEx env)) (\<lambda>r.
      case r of
        Failure e \<Rightarrow> throw (Win32Error ''UnlockFileEx'' e)
      | Success u \<Rightarrow>
      and_then (perform (CloseHandle f) (on_CloseHandle_f env)) (\<lambda>r.
      case r of
        Failure e \<Rightarrow> throw (Win32Error ''CloseHandle'' e)
      | Success u \<Rightarrow> return_value exitCode)))))))))))))))))"

text \<open>
  The \<^verbatim>\<open>try\<close> block from line 68 on, entered with \<^verbatim>\<open>argc >= 3\<close>: open the lock
  file, take the lock, run the command. Of the arguments of \<^verbatim>\<open>CreateFileA\<close> only the
  path is kept. The program zeroes \<^verbatim>\<open>ol\<close> once and never writes to it again; every
  \<^verbatim>\<open>LockFileEx\<close> and the \<^verbatim>\<open>UnlockFileEx\<close> get a pointer to it, and the calls are
  taken to leave its offset fields as they are.
\<close>

definition try_block :: "os \<Rightarrow> string list \<Rightarrow> dword exec" where
  "try_block env argv =
     and_then (perform (CreateFileA (argv ! 1)) (on_CreateFileA env (argv ! 1))) (\<lambda>r.
     case r of
       Failure e \<Rightarrow> throw (Win32Error ''CreateFileA'' e)
     | Success n \<Rightarrow>
     let f = FileHandle n;
         ol = ZeroMemory in
     and_then (acquire env f ol 0) (\<lambda>lockAcquired.
     if \<not> lockAcquired then throw (Win32Error ''LockFileEx'' ERROR_LOCK_VIOLATION)
     else supervise env f ol argv))"

text \<open>What the process leaves: its exit status, its standard error, its calls.\<close>

record outcome =
  exit_code :: dword
  stderr :: string
  trace :: "event list"

text \<open>
  Lines 201 to 219: the buffer starts as the one-character string \<^verbatim>\<open>"0"\<close> (its
  initialiser is \<^verbatim>\<open>{ L'0' }\<close>), \<^verbatim>\<open>FormatMessageA\<close> overwrites it when it succeeds,
  and one trailing CR LF is cut off.
\<close>

definition strip_newline :: "string \<Rightarrow> string" where
  "strip_newline buf =
     (let len = length buf
      in if len > 1 \<and> buf ! (len - 2) = CR \<and> buf ! (len - 1) = LF
         then take (len - 2) buf else buf)"

definition message_buffer :: "string os_result \<Rightarrow> string" where
  "message_buffer r =
     strip_newline (c_str (case r of Success m \<Rightarrow> m | Failure e \<Rightarrow> ''0''))"

text \<open>The handler of lines 197 to 225.\<close>

definition catch_Win32Error :: "os \<Rightarrow> string \<Rightarrow> dword \<Rightarrow> event list \<Rightarrow> outcome" where
  "catch_Win32Error env what errorCode tr =
     (let result = on_FormatMessageA env errorCode;
          buf = message_buffer result
      in \<lparr>exit_code = errorCode,
          stderr = ''error: '' @ what @ '' failed: '' @ buf @ '' (code ''
                   @ decimal (unat errorCode) @ '')'' @ [LF],
          trace = tr @ [(FormatMessageA errorCode, error_of result)]\<rparr>)"

text \<open>The handler of lines 226 to 229.\<close>

definition catch_exception :: "string \<Rightarrow> event list \<Rightarrow> outcome" where
  "catch_exception what tr =
     \<lparr>exit_code = 1, stderr = ''error: '' @ what @ [LF], trace = tr\<rparr>"

text \<open>What leaves the \<^verbatim>\<open>try\<close> block, by return or by one of the two handlers.\<close>

fun finish :: "os \<Rightarrow> dword exec \<Rightarrow> outcome" where
  "finish env (Inr exitCode, tr) = \<lparr>exit_code = exitCode, stderr = [], trace = tr\<rparr>"
| "finish env (Inl (Win32Error what errorCode), tr) = catch_Win32Error env what errorCode tr"
| "finish env (Inl (StdException what), tr) = catch_exception what tr"

definition usage :: string where
  "usage = ''usage: withlockfile <lockfile> <command> [args..]'' @ [LF]"

text \<open>
  \<^verbatim>\<open>main\<close>: \<open>argv\<close> is the whole argument vector, the program's name first, and
  \<^verbatim>\<open>argc\<close> is its length; its elements are C strings, which hold no NUL byte.
  The exit status of a Windows process is a \<^verbatim>\<open>DWORD\<close>, and \<^verbatim>\<open>main\<close> returns the
  \<^verbatim>\<open>DWORD\<close> it holds converted to \<^verbatim>\<open>int\<close>: the same 32 bits.
\<close>

definition main :: "os \<Rightarrow> string list \<Rightarrow> outcome" where
  "main env argv =
     (let argc = length argv
      in if argc < 3 then \<lparr>exit_code = 1, stderr = usage, trace = []\<rparr>
         else finish env (try_block env argv))"

subsection \<open>Notions of the specification\<close>

text \<open>
  The definitions of this part are not code of the program: they name what the
  specification talks about, so that the theorems can state it.
\<close>

text \<open>A name ends with an extension under case-insensitive comparison.\<close>

definition ends_with_ci :: "string \<Rightarrow> string \<Rightarrow> bool" where
  "ends_with_ci s ext =
     (length ext \<le> length s \<and>
      map tolower (drop (length s - length ext) s) = map tolower ext)"

text \<open>
  White space on a Windows command line is what separates two arguments there: a
  blank or a tab, the two characters \<^verbatim>\<open>quoteArgument\<close> looks for.
\<close>

definition contains_whitespace :: "string \<Rightarrow> bool" where
  "contains_whitespace arg = list_ex (\<lambda>c. c = SPACE \<or> c = TAB) arg"

text \<open>Strings joined by single blanks.\<close>

fun join_with_space :: "string list \<Rightarrow> string" where
  "join_with_space [] = []"
| "join_with_space [x] = x"
| "join_with_space (x # y # ys) = x @ [SPACE] @ join_with_space (y # ys)"

text \<open>The name of the function a call goes to.\<close>

fun op_name :: "call \<Rightarrow> string" where
  "op_name (CreateFileA path) = ''CreateFileA''"
| "op_name (LockFileEx h flags reserved low high ol) = ''LockFileEx''"
| "op_name (Sleep ms) = ''Sleep''"
| "op_name (PathSearchAndQualifyA path) = ''PathSearchAndQualifyA''"
| "op_name (GetStdHandle which) = ''GetStdHandle''"
| "op_name (CreateProcessA app cmd inherit flags) = ''CreateProcessA''"
| "op_name CreateJobObject = ''CreateJobObject''"
| "op_name (SetInformationJobObject h limits) = ''SetInformationJobObject''"
| "op_name (CloseHandle h) = ''CloseHandle''"
| "op_name (AssignProcessToJobObject job process) = ''AssignProcessToJobObject''"
| "op_name (ResumeThread h) = ''ResumeThread''"
| "op_name (WaitForSingleObject h ms) = ''WaitForSingleObject''"
| "op_name (GetExitCodeProcess h) = ''GetExitCodeProcess''"
| "op_name (UnlockFileEx h reserved low high ol) = ''UnlockFileEx''"
| "op_name (FormatMessageA code) = ''FormatMessageA''"

definition called :: "string \<Rightarrow> event \<Rightarrow> bool" where
  "called name ev = (op_name (fst ev) = name)"

definition succeeded :: "string \<Rightarrow> event \<Rightarrow> bool" where
  "succeeded name ev = (op_name (fst ev) = name \<and> snd ev = None)"

definition failed_with :: "string \<Rightarrow> dword \<Rightarrow> event \<Rightarrow> bool" where
  "failed_with name e ev = (op_name (fst ev) = name \<and> snd ev = Some e)"

text \<open>\<^verbatim>\<open>CloseHandle\<close> on the handle of a file, which is the lock file's.\<close>

fun closes_file :: "event \<Rightarrow> bool" where
  "closes_file (CloseHandle (FileHandle n), r) = True"
| "closes_file ev = False"

text \<open>
  In a trace, every event with \<open>P\<close> comes strictly before every event with \<open>Q\<close>, and
  there is one of each: the trace can be cut in two so that the events with \<open>P\<close> are
  all in the first part and those with \<open>Q\<close> all in the second.
\<close>

definition strictly_before :: "(event \<Rightarrow> bool) \<Rightarrow> (event \<Rightarrow> bool) \<Rightarrow> event list \<Rightarrow> bool" where
  "strictly_before P Q tr =
     list_ex (\<lambda>n. list_ex P (take n tr) \<and> \<not> list_ex Q (take n tr) \<and>
                   list_ex Q (drop n tr) \<and> \<not> list_ex P (drop n tr))
       [0..<Suc (length tr)]"

text \<open>
  The events of \<open>k\<close> attempts that met contention: each a failed \<^verbatim>\<open>LockFileEx\<close>
  followed by a \<^verbatim>\<open>Sleep\<close> of 1000 milliseconds.
\<close>

definition retries :: "handle \<Rightarrow> overlapped \<Rightarrow> nat \<Rightarrow> event list" where
  "retries f ol k =
     concat (replicate k [(lock_call f ol, Some ERROR_LOCK_VIOLATION), (Sleep 1000, None)])"

text \<open>The first \<open>k\<close> attempts all meet contention.\<close>

definition contended :: "os \<Rightarrow> nat \<Rightarrow> bool" where
  "contended env k = list_all (\<lambda>j. on_LockFileEx env j = Failure ERROR_LOCK_VIOLATION) [0..<k]"

text \<open>
  The byte range of a lock or unlock call: the handle, the 64-bit offset held in the
  \<^verbatim>\<open>OVERLAPPED\<close> structure, and the 64-bit length given by its low and high halves.
\<close>

definition qword :: "dword \<Rightarrow> dword \<Rightarrow> 64 word" where
  "qword low high = push_bit 32 (ucast high) OR ucast low"

fun byte_range :: "call \<Rightarrow> (handle \<times> 64 word \<times> 64 word) option" where
  "byte_range (LockFileEx h flags reserved low high ol) =
     Some (h, qword (Offset ol) (OffsetHigh ol), qword low high)"
| "byte_range (UnlockFileEx h reserved low high ol) =
     Some (h, qword (Offset ol) (OffsetHigh ol), qword low high)"
| "byte_range c = None"

text \<open>
  The events after the lock has been taken when every step succeeds (the attachment
  to the job object with the answer it got): \<open>buf\<close> is the path found for the
  command, \<open>p\<close>, \<open>t\<close> and \<open>j\<close> are the numbers of the process, thread and job handles.
\<close>

definition completed_run ::
  "os \<Rightarrow> handle \<Rightarrow> overlapped \<Rightarrow> string list \<Rightarrow> string \<Rightarrow> nat \<Rightarrow> nat \<Rightarrow> nat \<Rightarrow> event list" where
  "completed_run env f ol argv buf p t j =
     [(PathSearchAndQualifyA (enforceExeExtension (argv ! 2)), None),
      (GetStdHandle STD_ERROR_HANDLE, error_of (on_GetStdHandle env STD_ERROR_HANDLE)),
      (GetStdHandle STD_OUTPUT_HANDLE, error_of (on_GetStdHandle env STD_OUTPUT_HANDLE)),
      (GetStdHandle STD_INPUT_HANDLE, error_of (on_GetStdHandle env STD_INPUT_HANDLE)),
      (CreateProcessA (c_str buf) (buildCommandLine (c_str buf) argv) True CREATE_SUSPENDED,
       None),
      (CreateJobObject, None),
      (SetInformationJobObject (JobHandle j) JOB_OBJECT_LIMIT_KILL_ON_JOB_CLOSE, None),
      (AssignProcessToJobObject (JobHandle j) (ProcessHandle p),
       error_of (on_AssignProcessToJobObject env)),
      (ResumeThread (ThreadHandle t), None),
      (WaitForSingleObject (ProcessHandle p) INFINITE, None),
      (GetExitCodeProcess (ProcessHandle p), None),
      (UnlockFileEx f 0 1 0 ol, None),
      (CloseHandle f, None)]"

text \<open>
  The calls that move the child through its states: created suspended, attached to
  the job object, running, exited.
\<close>

definition child_step :: "event \<Rightarrow> bool" where
  "child_step ev =
     (op_name (fst ev) \<in> set [''CreateProcessA'', ''AssignProcessToJobObject'',
                              ''ResumeThread'', ''WaitForSingleObject''])"

text \<open>
  The answers of the operating system and of the standard library, step by step.
  Each of the following holds when the answers up to a step are all successes:
  the lock file is open and the lock is taken at attempt \<open>k\<close>; the executable is
  found at \<open>buf\<close>; the child is created with process and thread handles \<open>p\<close> and
  \<open>t\<close>; the job object is created with handle \<open>j\<close>; its limit is set; the
  attachment has succeeded or has been denied; the child is resumed; the wait has
  returned; the exit code has been read.
\<close>

definition acquired :: "os \<Rightarrow> string list \<Rightarrow> nat \<Rightarrow> nat \<Rightarrow> bool" where
  "acquired env argv n k =
     (on_CreateFileA env (argv ! 1) = Success n \<and> k < 300 \<and> contended env k \<and>
      on_LockFileEx env k = Success ())"

definition resolved :: "os \<Rightarrow> string list \<Rightarrow> string \<Rightarrow> bool" where
  "resolved env argv buf =
     (on_std_string env ExecutableName = None \<and>
      on_PathSearchAndQualifyA env (enforceExeExtension (argv ! 2)) = Success buf)"

definition created :: "os \<Rightarrow> string list \<Rightarrow> string \<Rightarrow> nat \<Rightarrow> nat \<Rightarrow> bool" where
  "created env argv buf p t =
     (resolved env argv buf \<and>
      on_std_string env ExecutablePath = None \<and> on_std_string env CommandLine = None \<and>
      on_CreateProcessA env (c_str buf) (buildCommandLine (c_str buf) argv) = Success (p, t))"

definition job_created :: "os \<Rightarrow> string list \<Rightarrow> string \<Rightarrow> nat \<Rightarrow> nat \<Rightarrow> nat \<Rightarrow> bool" where
  "job_created env argv buf p t j =
     (created env argv buf p t \<and> on_CreateJobObject env = Success j)"

definition job_limited :: "os \<Rightarrow> string list \<Rightarrow> string \<Rightarrow> nat \<Rightarrow> nat \<Rightarrow> nat \<Rightarrow> bool" where
  "job_limited env argv buf p t j =
     (job_created env argv buf p t j \<and> on_SetInformationJobObject env = Success ())"

definition attach_passed :: "os \<Rightarrow> string list \<Rightarrow> string \<Rightarrow> nat \<Rightarrow> nat \<Rightarrow> nat \<Rightarrow> bool" where
  "attach_passed env argv buf p t j =
     (job_limited env argv buf p t j \<and>
      (on_AssignProcessToJobObject env = Success () \<or>
       on_AssignProcessToJobObject env = Failure ERROR_ACCESS_DENIED))"

definition resumed :: "os \<Rightarrow> string list \<Rightarrow> string \<Rightarrow> nat \<Rightarrow> nat \<Rightarrow> nat \<Rightarrow> bool" where
  "resumed env argv buf p t j =
     (attach_passed env argv buf p t j \<and> on_ResumeThread env = Success ())"

definition exited :: "os \<Rightarrow> string list \<Rightarrow> string \<Rightarrow> nat \<Rightarrow> nat \<Rightarrow> nat \<Rightarrow> bool" where
  "exited env argv buf p t j =
     (resumed env argv buf p t j \<and> on_WaitForSingleObject env = Success ())"

definition exit_code_read ::
  "os \<Rightarrow> string list \<Rightarrow> string \<Rightarrow> nat \<Rightarrow> nat \<Rightarrow> nat \<Rightarrow> dword \<Rightarrow> bool" where
  "exit_code_read env argv buf p t j exitCode =
     (exited env argv buf p t j \<and> on_GetExitCodeProcess env = Success exitCode)"

text \<open>Every step succeeds, the release of the lock and the closing of the file too.\<close>

definition completes ::
  "os \<Rightarrow> string list \<Rightarrow> nat \<Rightarrow> nat \<Rightarrow> string \<Rightarrow> nat \<Rightarrow> nat \<Rightarrow> nat \<Rightarrow> dword \<Rightarrow> bool" where
  "completes env argv n k buf p t j exitCode =
     (acquired env argv n k \<and> exit_code_read env argv buf p t j exitCode \<and>
      on_UnlockFileEx env = Success () \<and> on_CloseHandle_f env = Success ())"

text \<open>
  The steps after the lock has been taken whose failure the program tests, and for
  each the name of its function, which is the text of the \<^verbatim>\<open>Win32Error\<close> thrown when
  it fails, and its place among the events of a completed run.
\<close>

datatype step = Resolve | Create | CreateJob | Limit | Attach | Resume | AwaitExit
  | ReadExitCode | Unlock | CloseFile

fun step_name :: "step \<Rightarrow> string" where
  "step_name Resolve = ''PathSearchAndQualifyA''"
| "step_name Create = ''CreateProcessA''"
| "step_name CreateJob = ''CreateJobObject''"
| "step_name Limit = ''SetInformationJobObject''"
| "step_name Attach = ''AssignProcessToJobObject''"
| "step_name Resume = ''ResumeThread''"
| "step_name AwaitExit = ''WaitForSingleObject''"
| "step_name ReadExitCode = ''GetExitCodeProcess''"
| "step_name Unlock = ''UnlockFileEx''"
| "step_name CloseFile = ''CloseHandle''"

fun step_position :: "step \<Rightarrow> nat" where
  "step_position Resolve = 0"
| "step_position Create = 4"
| "step_position CreateJob = 5"
| "step_position Limit = 6"
| "step_position Attach = 7"
| "step_position Resume = 8"
| "step_position AwaitExit = 9"
| "step_position ReadExitCode = 10"
| "step_position Unlock = 11"
| "step_position CloseFile = 12"

text \<open>
  The steps before a step all succeed and the step itself fails with last error \<open>e\<close>;
  at the attachment, with an error other than \<^verbatim>\<open>ERROR_ACCESS_DENIED\<close>.
\<close>

fun fails ::
  "os \<Rightarrow> string list \<Rightarrow> string \<Rightarrow> nat \<Rightarrow> nat \<Rightarrow> nat \<Rightarrow> step \<Rightarrow> dword \<Rightarrow> bool" where
  "fails env argv buf p t j Resolve e =
     (on_std_string env ExecutableName = None \<and>
      on_PathSearchAndQualifyA env (enforceExeExtension (argv ! 2)) = Failure e)"
| "fails env argv buf p t j Create e =
     (resolved env argv buf \<and>
      on_std_string env ExecutablePath = None \<and> on_std_string env CommandLine = None \<and>
      on_CreateProcessA env (c_str buf) (buildCommandLine (c_str buf) argv) = Failure e)"
| "fails env argv buf p t j CreateJob e =
     (created env argv buf p t \<and> on_CreateJobObject env = Failure e)"
| "fails env argv buf p t j Limit e =
     (job_created env argv buf p t j \<and> on_SetInformationJobObject env = Failure e)"
| "fails env argv buf p t j Attach e =
     (job_limited env argv buf p t j \<and> on_AssignProcessToJobObject env = Failure e \<and>
      e \<noteq> ERROR_ACCESS_DENIED)"
| "fails env argv buf p t j Resume e =
     (attach_passed env argv buf p t j \<and> on_ResumeThread env = Failure e)"
| "fails env argv buf p t j AwaitExit e =
     (resumed env argv buf p t j \<and> on_WaitForSingleObject env = Failure e)"
| "fails env argv buf p t j ReadExitCode e =
     (exited env argv buf p t j \<and> on_GetExitCodeProcess env = Failure e)"
| "fails env argv buf p t j Unlock e =
     (exited env argv buf p t j \<and>
      (case on_GetExitCodeProcess env of Success exitCode \<Rightarrow> True | Failure x \<Rightarrow> False) \<and>
      on_UnlockFileEx env = Failure e)"
| "fails env argv buf p t j CloseFile e =
     (exited env argv buf p t j \<and>
      (case on_GetExitCodeProcess env of Success exitCode \<Rightarrow> True | Failure x \<Rightarrow> False) \<and>
      on_UnlockFileEx env = Success () \<and> on_CloseHandle_f env = Failure e)"

text \<open>
  The error code of the \<^verbatim>\<open>Win32Error\<close> thrown when a step fails with \<open>e\<close>: it is \<open>e\<close>,
  except that after \<^verbatim>\<open>SetInformationJobObject\<close> the last error is read after
  \<^verbatim>\<open>CloseHandle\<close> on the job object.
\<close>

fun thrown_code :: "os \<Rightarrow> step \<Rightarrow> dword \<Rightarrow> dword" where
  "thrown_code env Limit e =
     (case on_CloseHandle_jobObject env of Failure e' \<Rightarrow> e' | Success u \<Rightarrow> e)"
| "thrown_code env s e = e"

text \<open>
  The events after the lock has been taken when a step fails: those of a completed
  run before the step, and the failed call (followed by \<^verbatim>\<open>CloseHandle\<close> on the job
  object when the step is the setting of the limit).
\<close>

definition failed_run ::
  "os \<Rightarrow> handle \<Rightarrow> overlapped \<Rightarrow> string list \<Rightarrow> string \<Rightarrow> nat \<Rightarrow> nat \<Rightarrow> nat \<Rightarrow> step \<Rightarrow> dword
   \<Rightarrow> event list" where
  "failed_run env f ol argv buf p t j s e =
     take (step_position s) (completed_run env f ol argv buf p t j)
     @ [(fst (completed_run env f ol argv buf p t j ! step_position s), Some e)]
     @ (if s = Limit
        then [(CloseHandle (JobHandle j), error_of (on_CloseHandle_jobObject env))]
        else [])"

text \<open>
  One of the three strings cannot be built, after the steps before it succeeded: the
  standard library throws an exception with the text \<open>what\<close>.
\<close>

definition string_fails :: "os \<Rightarrow> string list \<Rightarrow> string \<Rightarrow> string \<Rightarrow> bool" where
  "string_fails env argv buf what =
     (on_std_string env ExecutableName = Some what \<or>
      (resolved env argv buf \<and>
       (on_std_string env ExecutablePath = Some what \<or>
        (on_std_string env ExecutablePath = None \<and>
         on_std_string env CommandLine = Some what))))"


subsection \<open>Sample runs\<close>

text \<open>An operating system in which every call succeeds; the child exits with 7.\<close>

definition calm :: os where
  "calm = \<lparr>on_CreateFileA = (\<lambda>path. Success 1),
           on_LockFileEx = (\<lambda>i. Success ()),
           on_PathSearchAndQualifyA = (\<lambda>name. Success (''C:/bin/'' @ name)),
           on_GetStdHandle = (\<lambda>which. Success 0),
           on_CreateProcessA = (\<lambda>app cmd. Success (2, 3)),
           on_CreateJobObject = Success 4,
           on_SetInformationJobObject = Success (),
           on_CloseHandle_jobObject = Success (),
           on_AssignProcessToJobObject = Success (),
           on_ResumeThread = Success (),
           on_WaitForSingleObject = Success (),
           on_GetExitCodeProcess = Success 7,
           on_UnlockFileEx = Success (),
           on_CloseHandle_f = Success (),
           on_FormatMessageA = (\<lambda>code. Success (''message'' @ [CR, LF])),
           on_std_string = (\<lambda>site. None)\<rparr>"

text \<open>The lock is taken at once, and the command is not found (error 2).\<close>

definition not_found :: os where
  "not_found = calm\<lparr>on_PathSearchAndQualifyA := (\<lambda>name. Failure 2)\<rparr>"

text \<open>The lock is held by another process at the first attempt and free at the second.\<close>

definition busy_once :: os where
  "busy_once = calm\<lparr>on_LockFileEx :=
     (\<lambda>i. if i = 0 then Failure ERROR_LOCK_VIOLATION else Success ())\<rparr>"

text \<open>The lock is held by another process at every attempt.\<close>

definition busy_forever :: os where
  "busy_forever = calm\<lparr>on_LockFileEx := (\<lambda>i. Failure ERROR_LOCK_VIOLATION)\<rparr>"


text \<open>The child cannot be put into the job object: access is denied.\<close>

definition job_denied :: os where
  "job_denied = calm\<lparr>on_AssignProcessToJobObject := Failure ERROR_ACCESS_DENIED\<rparr>"

text \<open>The child cannot be put into the job object, for another reason (error 6).\<close>

definition job_refused :: os where
  "job_refused = calm\<lparr>on_AssignProcessToJobObject := Failure 6\<rparr>"

text \<open>None of the three standard handles can be had (error 6).\<close>

definition no_std_handles :: os where
  "no_std_handles = calm\<lparr>on_GetStdHandle := (\<lambda>which. Failure 6)\<rparr>"


text \<open>There is no memory for the command line.\<close>

definition no_memory :: os where
  "no_memory = calm\<lparr>on_std_string :=
     (\<lambda>site. if site = CommandLine then Some ''bad allocation'' else None)\<rparr>"

definition sample_argv :: "string list" where
  "sample_argv = [''withlockfile'', ''lock.txt'', ''myecho'', ''hello world'', ''x'']"

section \<open>Properties\<close>

subsection \<open>The string helpers\<close>

lemma of_char_tolower_diff:
  "int (of_char (tolower x)) - int (of_char (tolower y)) = 0 \<longleftrightarrow> tolower x = tolower y"
  by auto

lemma stricmp_zero_iff: "stricmp a b = 0 \<longleftrightarrow> map tolower a = map tolower b"
  by (induction a b rule: stricmp.induct) (simp_all del: of_nat_of_char)

lemma tolower_NUL: "tolower NUL = NUL"
  by (simp add: tolower_def NUL_def)

lemma tolower_eq_NUL: "tolower c = NUL \<longleftrightarrow> c = NUL"
proof
  assume h: "tolower c = NUL"
  show "c = NUL"
  proof (cases "65 \<le> (of_char c :: nat) \<and> (of_char c :: nat) \<le> 90")
    case True
    then have "tolower c = char_of ((of_char c :: nat) + 32)" by (simp add: tolower_def)
    then have "(of_char (tolower c) :: nat) = ((of_char c :: nat) + 32) mod 256" by simp
    with True h show ?thesis by (simp add: NUL_def)
  next
    case False
    with h show ?thesis by (simp add: tolower_def Let_def)
  qed
qed (simp add: tolower_NUL)

lemma tolower_exe: "map tolower ''.exe'' = ''.exe''"
  by (simp add: tolower_def)

lemma c_str_no_NUL: "NUL \<notin> set s \<Longrightarrow> c_str s = s"
  by (auto simp: c_str_def takeWhile_eq_all_conv)

lemma c_str_shorter: "NUL \<in> set s \<Longrightarrow> length (c_str s) < length s"
  unfolding c_str_def by (induction s) auto

lemma stricmp_c_str_exe:
  assumes "length t \<le> 4"
  shows "stricmp (c_str t) ''.exe'' = 0 \<longleftrightarrow> map tolower t = ''.exe''"
proof (cases "NUL \<in> set t")
  case False
  then have "c_str t = t" by (rule c_str_no_NUL)
  then show ?thesis using stricmp_zero_iff [of t "''.exe''"] by (simp only: tolower_exe)
next
  case True
  have "map tolower t \<noteq> ''.exe''"
  proof
    assume e: "map tolower t = ''.exe''"
    from True have "NUL \<in> set (map tolower t)" using tolower_NUL by force
    with e show False by (simp add: NUL_def)
  qed
  moreover have "map tolower (c_str t) \<noteq> ''.exe''"
  proof
    assume e: "map tolower (c_str t) = ''.exe''"
    then have "length (map tolower (c_str t)) = 4" by simp
    with c_str_shorter [OF True] assms show False by simp
  qed
  ultimately show ?thesis using stricmp_zero_iff [of "c_str t" "''.exe''"]
    by (simp only: tolower_exe)
qed

lemma ends_with_ci_exe:
  "ends_with_ci s ''.exe'' \<longleftrightarrow>
     4 \<le> length s \<and> map tolower (drop (length s - 4) s) = ''.exe''"
proof -
  have l: "length ''.exe'' = (4::nat)" by simp
  show ?thesis unfolding ends_with_ci_def l tolower_exe ..
qed

lemma enforceExeExtension_eq:
  "enforceExeExtension s = (if ends_with_ci s ''.exe'' then s else s @ ''.exe'')"
proof (cases "length s < 4")
  case True
  then show ?thesis unfolding enforceExeExtension_def Let_def ends_with_ci_exe by simp
next
  case False
  then have "length (drop (length s - 4) s) \<le> 4" by simp
  from stricmp_c_str_exe [OF this] False show ?thesis
    unfolding enforceExeExtension_def Let_def ends_with_ci_exe by simp
qed

lemma ends_with_ci_append_exe: "ends_with_ci (s @ ''.exe'') ''.exe''"
  by (simp add: ends_with_ci_def)

text \<open>
  Claim C7. \<^verbatim>\<open>enforceExeExtension\<close> appends \<^verbatim>\<open>.exe\<close> exactly when the name does not
  already end in it under case-insensitive comparison. So a name without the
  extension is normalised to the same string as that name with \<^verbatim>\<open>.exe\<close> appended,
  and normalising twice is normalising once.
\<close>

theorem C7_extension_normalised: "enforceExeExtension s = (if ends_with_ci s ''.exe'' then s else s @ ''.exe'')
  \<and> (\<not> ends_with_ci s ''.exe'' \<longrightarrow> enforceExeExtension s = enforceExeExtension (s @ ''.exe''))
  \<and> enforceExeExtension (enforceExeExtension s) = enforceExeExtension s"
  by (simp add: enforceExeExtension_eq ends_with_ci_append_exe del: append.simps)

theorem C7_extension_normalised_witness:
  "\<not> ends_with_ci ''myecho'' ''.exe'' \<and>
   enforceExeExtension ''myecho'' = ''myecho'' @ ''.exe'' \<and>
   enforceExeExtension ''myecho'' = enforceExeExtension (''myecho'' @ ''.exe'') \<and>
   enforceExeExtension (enforceExeExtension ''myecho'') = enforceExeExtension ''myecho''"
proof -
  have h: "\<not> ends_with_ci ''myecho'' ''.exe''" by code_simp
  from C7_extension_normalised [of "''myecho''"] h show ?thesis
    by (auto split: if_splits)
qed

lemma find_first_of_None: "find_first_of s chars = None \<longleftrightarrow> (\<forall>c \<in> set s. c \<notin> set chars)"
  by (induction s) (auto split: option.splits)

lemma quoteArgument_eq:
  "quoteArgument arg = (if contains_whitespace arg then [DQUOTE] @ arg @ [DQUOTE] else arg)"
proof -
  have "find_first_of arg [SPACE, TAB] \<noteq> None \<longleftrightarrow> contains_whitespace arg"
    unfolding find_first_of_None contains_whitespace_def list_ex_iff by auto
  then show ?thesis by (simp add: quoteArgument_def Let_def)
qed

lemma appendArguments_eq:
  "appendArguments argv i acc = acc @ concat (map (\<lambda>a. SPACE # quoteArgument a) (drop i argv))"
proof (induction argv i acc rule: appendArguments.induct)
  case (1 argv i commandLine)
  show ?case
  proof (cases "i < length argv")
    case True
    then have d: "drop i argv = argv ! i # drop (i + 1) argv"
      by (simp add: Cons_nth_drop_Suc)
    from True 1 show ?thesis
      by (subst appendArguments.simps) (simp add: d)
  next
    case False
    then show ?thesis by (subst appendArguments.simps) simp
  qed
qed

lemma join_with_space_Cons:
  "join_with_space (x # xs) = x @ concat (map (\<lambda>a. SPACE # a) xs)"
  by (induction xs arbitrary: x) auto

text \<open>
  Claim C6. \<^verbatim>\<open>quoteArgument\<close> puts an argument between two double quotes, with
  nothing inside changed, exactly when the argument contains white space, and leaves
  it as it is otherwise. The command line is the quoted path of the executable
  followed by the quoted arguments \<^verbatim>\<open>argv[3]\<close>, \<^verbatim>\<open>argv[4]\<close>, ... in that order,
  joined by single blanks.
\<close>

theorem C6_quoting: "quoteArgument arg = (if contains_whitespace arg then [DQUOTE] @ arg @ [DQUOTE] else arg)
  \<and> buildCommandLine executable argv
      = join_with_space (map quoteArgument (executable # drop 3 argv))"
  by (simp add: quoteArgument_eq [symmetric] buildCommandLine_def appendArguments_eq
      join_with_space_Cons map_map comp_def del: join_with_space.simps)



theorem C6_quoting_witness:
  "contains_whitespace ''hello world'' \<and>
   quoteArgument ''hello world'' = [DQUOTE] @ ''hello world'' @ [DQUOTE] \<and>
   buildCommandLine ''C:/bin/myecho.exe'' sample_argv
     = join_with_space (map quoteArgument (''C:/bin/myecho.exe'' # drop 3 sample_argv))"
proof -
  have h: "contains_whitespace ''hello world''" by code_simp
  from C6_quoting [of "''hello world''" "''C:/bin/myecho.exe''" sample_argv] h
  show ?thesis by (auto split: if_splits)
qed

subsection \<open>Traces\<close>

lemma and_then_perform:
  "and_then (perform c r) k = (fst (k r), (c, error_of r) # snd (k r))"
  by (simp add: and_then_def perform_def split: prod.splits)

lemma fst_throw: "fst (throw e) = Inl e" and snd_throw: "snd (throw e) = []"
  by (simp_all add: throw_def)

lemma fst_return: "fst (return_value x) = Inr x" and snd_return: "snd (return_value x) = []"
  by (simp_all add: return_value_def)

lemmas exec_simps = and_then_perform fst_throw snd_throw fst_return snd_return

subsection \<open>The loop that takes the lock\<close>

lemma contended_iff: "contended env k \<longleftrightarrow> (\<forall>j<k. on_LockFileEx env j = Failure ERROR_LOCK_VIOLATION)"
  by (auto simp: contended_def list_all_iff)

lemma retries_Suc: "retries f ol (Suc k)
   = (lock_call f ol, Some ERROR_LOCK_VIOLATION) # (Sleep 1000, None) # retries f ol k"
  by (simp add: retries_def)

lemma retries_0: "retries f ol 0 = []"
  by (simp add: retries_def)

lemma acquire_step_busy:
  "i < 300 \<Longrightarrow> on_LockFileEx env i = Failure ERROR_LOCK_VIOLATION \<Longrightarrow>
   acquire env f ol i = (fst (acquire env f ol (Suc i)),
      (lock_call f ol, Some ERROR_LOCK_VIOLATION) # (Sleep 1000, None) # snd (acquire env f ol (Suc i)))"
  by (subst acquire.simps) (simp add: exec_simps)

lemma acquire_step_ok:
  "i < 300 \<Longrightarrow> on_LockFileEx env i = Success u \<Longrightarrow>
   acquire env f ol i = (Inr True, [(lock_call f ol, None)])"
  by (subst acquire.simps) (simp add: exec_simps)

lemma acquire_step_error:
  "i < 300 \<Longrightarrow> on_LockFileEx env i = Failure e \<Longrightarrow> e \<noteq> ERROR_LOCK_VIOLATION \<Longrightarrow>
   acquire env f ol i = (Inl (Win32Error ''LockFileEx'' e), [(lock_call f ol, Some e)])"
  by (subst acquire.simps) (simp add: exec_simps)

lemma acquire_step_end: "\<not> i < 300 \<Longrightarrow> acquire env f ol i = (Inr False, [])"
  by (subst acquire.simps) (simp add: return_value_def)

lemma acquire_skip:
  "i + k \<le> 300 \<Longrightarrow> \<forall>j<k. on_LockFileEx env (i + j) = Failure ERROR_LOCK_VIOLATION \<Longrightarrow>
   acquire env f ol i = (fst (acquire env f ol (i + k)), retries f ol k @ snd (acquire env f ol (i + k)))"
proof (induction k arbitrary: i)
  case 0
  then show ?case by (simp add: retries_0)
next
  case (Suc k)
  from Suc.prems have i: "i < 300" and b: "on_LockFileEx env i = Failure ERROR_LOCK_VIOLATION"
    by auto
  have "\<forall>j<k. on_LockFileEx env (Suc i + j) = Failure ERROR_LOCK_VIOLATION"
    using Suc.prems(2) by (metis Suc_less_eq add_Suc_shift)
  with Suc.prems have "acquire env f ol (Suc i) = (fst (acquire env f ol (Suc i + k)),
      retries f ol k @ snd (acquire env f ol (Suc i + k)))"
    by (intro Suc.IH) auto
  then show ?case
    by (simp add: acquire_step_busy [OF i b] retries_Suc)
qed

text \<open>Every run of the loop is one of three.\<close>

lemma acquire_cases:
  "i \<le> 300 \<Longrightarrow>
   \<exists>k. i + k \<le> 300 \<and> (\<forall>j<k. on_LockFileEx env (i + j) = Failure ERROR_LOCK_VIOLATION) \<and>
     ((i + k < 300 \<and> on_LockFileEx env (i + k) = Success () \<and>
         acquire env f ol i = (Inr True, retries f ol k @ [(lock_call f ol, None)]))
    \<or> (i + k < 300 \<and> (\<exists>e. e \<noteq> ERROR_LOCK_VIOLATION \<and> on_LockFileEx env (i + k) = Failure e \<and>
         acquire env f ol i = (Inl (Win32Error ''LockFileEx'' e), retries f ol k @ [(lock_call f ol, Some e)])))
    \<or> (i + k = 300 \<and> acquire env f ol i = (Inr False, retries f ol k)))"
proof (induction "300 - i" arbitrary: i)
  case 0
  then have "i = 300" by simp
  then show ?case
    by (intro exI [of _ 0]) (simp add: acquire_step_end retries_0)
next
  case (Suc n)
  then have i: "i < 300" by simp
  show ?case
  proof (cases "on_LockFileEx env i")
    case (Success u)
    with i show ?thesis
      by (intro exI [of _ 0]) (simp add: acquire_step_ok retries_0)
  next
    case (Failure e)
    show ?thesis
    proof (cases "e = ERROR_LOCK_VIOLATION")
      case False
      with i Failure show ?thesis
        by (intro exI [of _ 0]) (simp add: acquire_step_error retries_0)
    next
      case True
      from Suc have "n = 300 - Suc i" and "Suc i \<le> 300" by simp_all
      from Suc.hyps(1) [OF this] obtain k where k: "Suc i + k \<le> 300"
        "\<forall>j<k. on_LockFileEx env (Suc i + j) = Failure ERROR_LOCK_VIOLATION"
        "(Suc i + k < 300 \<and> on_LockFileEx env (Suc i + k) = Success () \<and>
           acquire env f ol (Suc i) = (Inr True, retries f ol k @ [(lock_call f ol, None)]))
         \<or> (Suc i + k < 300 \<and> (\<exists>e. e \<noteq> ERROR_LOCK_VIOLATION \<and> on_LockFileEx env (Suc i + k) = Failure e \<and>
           acquire env f ol (Suc i) = (Inl (Win32Error ''LockFileEx'' e), retries f ol k @ [(lock_call f ol, Some e)])))
         \<or> (Suc i + k = 300 \<and> acquire env f ol (Suc i) = (Inr False, retries f ol k))"
        by blast
      have b: "on_LockFileEx env i = Failure ERROR_LOCK_VIOLATION" using Failure True by simp
      have all: "\<forall>j<Suc k. on_LockFileEx env (i + j) = Failure ERROR_LOCK_VIOLATION"
      proof (intro allI impI)
        fix j assume "j < Suc k"
        then show "on_LockFileEx env (i + j) = Failure ERROR_LOCK_VIOLATION"
          using b k(2) by (cases j) auto
      qed
      from k(1) k(3) all show ?thesis
        by (intro exI [of _ "Suc k"]) (auto simp: acquire_step_busy [OF i b] retries_Suc)
    qed
  qed
qed


lemma fst_and_then_perform: "fst (and_then (perform c r) k) = fst (k r)"
  by (simp add: and_then_perform)

lemma snd_and_then_perform: "snd (and_then (perform c r) k) = (c, error_of r) # snd (k r)"
  by (simp add: and_then_perform)

lemmas run_simps = fst_and_then_perform snd_and_then_perform fst_throw snd_throw
  fst_return snd_return

lemma list_ex_retries:
  "list_ex P (retries f ol k) \<longleftrightarrow>
     0 < k \<and> (P (lock_call f ol, Some ERROR_LOCK_VIOLATION) \<or> P (Sleep 1000, None))"
  by (induction k) (auto simp: retries_0 retries_Suc)

lemma filter_retries_lock:
  "filter (called ''LockFileEx'') (retries f ol k)
     = replicate k (lock_call f ol, Some ERROR_LOCK_VIOLATION)"
  by (induction k) (simp_all add: retries_0 retries_Suc called_def lock_call_def)

lemma filter_retries_sleep:
  "filter (called ''Sleep'') (retries f ol k) = replicate k (Sleep 1000, None)"
  by (induction k) (simp_all add: retries_0 retries_Suc called_def lock_call_def)

lemma strictly_beforeI:
  assumes "tr = pre @ post" "list_ex P pre" "\<not> list_ex Q pre" "list_ex Q post" "\<not> list_ex P post"
  shows "strictly_before P Q tr"
proof -
  have "length pre \<in> set [0..<Suc (length tr)]" using assms(1) by simp
  moreover have "take (length pre) tr = pre" "drop (length pre) tr = post"
    using assms(1) by simp_all
  ultimately show ?thesis
    unfolding strictly_before_def using assms(2-5)
    by (subst list_ex_iff) (intro bexI [of _ "length pre"], simp_all)
qed

subsection \<open>The ways a run can go\<close>

text \<open>The \<^verbatim>\<open>try\<close> block, by the answer to \<^verbatim>\<open>CreateFileA\<close> and the way the loop ends.\<close>

lemma try_block_not_opened:
  "on_CreateFileA env (argv ! 1) = Failure e \<Longrightarrow>
   try_block env argv = (Inl (Win32Error ''CreateFileA'' e), [(CreateFileA (argv ! 1), Some e)])"
  by (simp add: try_block_def and_then_perform throw_def)

lemma try_block_opened:
  "on_CreateFileA env (argv ! 1) = Success n \<Longrightarrow>
   try_block env argv =
     (fst (and_then (acquire env (FileHandle n) ZeroMemory 0) (\<lambda>lockAcquired.
        if \<not> lockAcquired then throw (Win32Error ''LockFileEx'' ERROR_LOCK_VIOLATION)
        else supervise env (FileHandle n) ZeroMemory argv)),
      (CreateFileA (argv ! 1), None) #
      snd (and_then (acquire env (FileHandle n) ZeroMemory 0) (\<lambda>lockAcquired.
        if \<not> lockAcquired then throw (Win32Error ''LockFileEx'' ERROR_LOCK_VIOLATION)
        else supervise env (FileHandle n) ZeroMemory argv)))"
  by (simp add: try_block_def and_then_perform Let_def)

lemma try_block_acquired:
  assumes "on_CreateFileA env (argv ! 1) = Success n"
    and "acquire env (FileHandle n) ZeroMemory 0 = (Inr True, tr)"
  shows "try_block env argv =
     (fst (supervise env (FileHandle n) ZeroMemory argv),
      (CreateFileA (argv ! 1), None) # tr @ snd (supervise env (FileHandle n) ZeroMemory argv))"
  by (simp add: try_block_opened [OF assms(1)] assms(2) and_then_def split: prod.splits)

lemma try_block_lock_error:
  assumes "on_CreateFileA env (argv ! 1) = Success n"
    and "acquire env (FileHandle n) ZeroMemory 0 = (Inl x, tr)"
  shows "try_block env argv = (Inl x, (CreateFileA (argv ! 1), None) # tr)"
  by (simp add: try_block_opened [OF assms(1)] assms(2) and_then_def)

lemma try_block_timeout:
  assumes "on_CreateFileA env (argv ! 1) = Success n"
    and "acquire env (FileHandle n) ZeroMemory 0 = (Inr False, tr)"
  shows "try_block env argv =
     (Inl (Win32Error ''LockFileEx'' ERROR_LOCK_VIOLATION), (CreateFileA (argv ! 1), None) # tr)"
  by (simp add: try_block_opened [OF assms(1)] assms(2) and_then_def throw_def)

text \<open>The four ways the \<^verbatim>\<open>try\<close> block can go.\<close>

lemma try_block_cases:
  obtains (not_opened) e where
      "on_CreateFileA env (argv ! 1) = Failure e"
      "try_block env argv
         = (Inl (Win32Error ''CreateFileA'' e), [(CreateFileA (argv ! 1), Some e)])"
  | (acquired) n k where
      "on_CreateFileA env (argv ! 1) = Success n" "k < 300" "contended env k"
      "on_LockFileEx env k = Success ()"
      "try_block env argv =
         (fst (supervise env (FileHandle n) ZeroMemory argv),
          (CreateFileA (argv ! 1), None) # retries (FileHandle n) ZeroMemory k
          @ (lock_call (FileHandle n) ZeroMemory, None)
          # snd (supervise env (FileHandle n) ZeroMemory argv))"
  | (lock_error) n k e where
      "on_CreateFileA env (argv ! 1) = Success n" "k < 300" "contended env k"
      "on_LockFileEx env k = Failure e" "e \<noteq> ERROR_LOCK_VIOLATION"
      "try_block env argv =
         (Inl (Win32Error ''LockFileEx'' e),
          (CreateFileA (argv ! 1), None) # retries (FileHandle n) ZeroMemory k
          @ [(lock_call (FileHandle n) ZeroMemory, Some e)])"
  | (timeout) n where
      "on_CreateFileA env (argv ! 1) = Success n" "contended env 300"
      "try_block env argv =
         (Inl (Win32Error ''LockFileEx'' ERROR_LOCK_VIOLATION),
          (CreateFileA (argv ! 1), None) # retries (FileHandle n) ZeroMemory 300)"
proof (cases "on_CreateFileA env (argv ! 1)")
  case (Failure e)
  then show ?thesis using try_block_not_opened not_opened by blast
next
  case (Success n)
  from acquire_cases [of 0 env "FileHandle n" ZeroMemory]
  obtain k where k: "k \<le> 300" "contended env k"
    "(k < 300 \<and> on_LockFileEx env k = Success () \<and>
         acquire env (FileHandle n) ZeroMemory 0
           = (Inr True, retries (FileHandle n) ZeroMemory k @ [(lock_call (FileHandle n) ZeroMemory, None)]))
    \<or> (k < 300 \<and> (\<exists>e. e \<noteq> ERROR_LOCK_VIOLATION \<and> on_LockFileEx env k = Failure e \<and>
         acquire env (FileHandle n) ZeroMemory 0
           = (Inl (Win32Error ''LockFileEx'' e),
              retries (FileHandle n) ZeroMemory k @ [(lock_call (FileHandle n) ZeroMemory, Some e)])))
    \<or> (k = 300 \<and> acquire env (FileHandle n) ZeroMemory 0
           = (Inr False, retries (FileHandle n) ZeroMemory k))"
    by (auto simp: contended_iff)
  from k(3) show ?thesis
  proof (elim disjE conjE exE)
    assume "k < 300" "on_LockFileEx env k = Success ()"
      and a: "acquire env (FileHandle n) ZeroMemory 0
           = (Inr True, retries (FileHandle n) ZeroMemory k @ [(lock_call (FileHandle n) ZeroMemory, None)])"
    then show ?thesis
      using acquired [OF Success _ k(2)] try_block_acquired [OF Success a] by simp
  next
    fix e assume "k < 300" "e \<noteq> ERROR_LOCK_VIOLATION" "on_LockFileEx env k = Failure e"
      and a: "acquire env (FileHandle n) ZeroMemory 0
           = (Inl (Win32Error ''LockFileEx'' e),
              retries (FileHandle n) ZeroMemory k @ [(lock_call (FileHandle n) ZeroMemory, Some e)])"
    then show ?thesis
      using lock_error [OF Success _ k(2)] try_block_lock_error [OF Success a] by simp
  next
    assume "k = 300" and a: "acquire env (FileHandle n) ZeroMemory 0
           = (Inr False, retries (FileHandle n) ZeroMemory k)"
    then show ?thesis
      using timeout [OF Success] k(2) try_block_timeout [OF Success a] by simp
  qed
qed



lemma main_completed:
  "3 \<le> length argv \<Longrightarrow> fst (try_block env argv) = Inr exitCode \<Longrightarrow>
   main env argv = \<lparr>exit_code = exitCode, stderr = [], trace = snd (try_block env argv)\<rparr>"
  by (cases "try_block env argv") (simp add: main_def)

lemma main_Win32Error:
  "3 \<le> length argv \<Longrightarrow> fst (try_block env argv) = Inl (Win32Error what e) \<Longrightarrow>
   main env argv = catch_Win32Error env what e (snd (try_block env argv))"
  by (cases "try_block env argv") (simp add: main_def)

lemma main_StdException:
  "3 \<le> length argv \<Longrightarrow> fst (try_block env argv) = Inl (StdException what) \<Longrightarrow>
   main env argv = catch_exception what (snd (try_block env argv))"
  by (cases "try_block env argv") (simp add: main_def)

subsection \<open>The order of the steps\<close>

lemma strictly_before_prepend:
  assumes "strictly_before P Q C" "\<not> list_ex Q A"
  shows "strictly_before P Q (A @ C)"
proof -
  from assms(1) obtain n where n: "list_ex P (take n C)" "\<not> list_ex Q (take n C)"
    "list_ex Q (drop n C)" "\<not> list_ex P (drop n C)"
    unfolding strictly_before_def list_ex_iff [of _ "[0..<Suc (length C)]"] by blast
  have "A @ C = (A @ take n C) @ drop n C" by simp
  then show ?thesis
    by (rule strictly_beforeI) (use n assms(2) in simp_all)
qed

lemma completed_run_attach_before_resume:
  "strictly_before (called ''AssignProcessToJobObject'') (called ''ResumeThread'')
     (completed_run env f ol argv buf p t j)"
  by (rule strictly_beforeI [where pre = "take 8 (completed_run env f ol argv buf p t j)"
        and post = "drop 8 (completed_run env f ol argv buf p t j)"])
     (simp_all add: completed_run_def called_def)

lemma completed_run_exit_code_before_unlock:
  "strictly_before (succeeded ''GetExitCodeProcess'') (called ''UnlockFileEx'')
     (completed_run env f ol argv buf p t j)"
  by (rule strictly_beforeI [where pre = "take 11 (completed_run env f ol argv buf p t j)"
        and post = "drop 11 (completed_run env f ol argv buf p t j)"])
     (simp_all add: completed_run_def called_def succeeded_def)

lemma completed_run_child_steps:
  "filter child_step (completed_run env f ol argv buf p t j) =
     [(CreateProcessA (c_str buf) (buildCommandLine (c_str buf) argv) True CREATE_SUSPENDED, None),
      (AssignProcessToJobObject (JobHandle j) (ProcessHandle p),
       error_of (on_AssignProcessToJobObject env)),
      (ResumeThread (ThreadHandle t), None),
      (WaitForSingleObject (ProcessHandle p) INFINITE, None)]"
  by (simp add: completed_run_def child_step_def)

lemma filter_child_step_retries: "filter child_step (retries f ol k) = []"
  by (induction k) (simp_all add: retries_0 retries_Suc child_step_def lock_call_def)

subsection \<open>The run after the lock has been taken\<close>

lemma fst_and_then_build:
  "fst (and_then (build env site s) k) =
     (case on_std_string env site of Some what \<Rightarrow> Inl (StdException what) | None \<Rightarrow> fst (k s))"
  by (simp add: and_then_def build_def throw_def return_value_def split: option.splits prod.splits)

lemma snd_and_then_build:
  "snd (and_then (build env site s) k) =
     (case on_std_string env site of Some what \<Rightarrow> [] | None \<Rightarrow> snd (k s))"
  by (simp add: and_then_def build_def throw_def return_value_def split: option.splits prod.splits)

lemmas supervise_unfold = supervise_def run_simps fst_and_then_build snd_and_then_build Let_def

lemmas stage_defs = resolved_def created_def job_created_def job_limited_def
  attach_passed_def resumed_def exited_def exit_code_read_def

lemma supervise_pair:
  "fst (supervise env f ol argv) = r \<Longrightarrow> snd (supervise env f ol argv) = tr \<Longrightarrow>
   supervise env f ol argv = (r, tr)"
  by auto

text \<open>When every step succeeds, the events are those of a completed run.\<close>

lemma supervise_completes:
  assumes "exit_code_read env argv buf p t j exitCode"
    "on_UnlockFileEx env = Success ()" "on_CloseHandle_f env = Success ()"
  shows "supervise env f ol argv = (Inr exitCode, completed_run env f ol argv buf p t j)"
  using assms
  by (intro supervise_pair) (auto simp: stage_defs supervise_unfold completed_run_def)

text \<open>When a step fails, its \<^verbatim>\<open>Win32Error\<close> is thrown after the failed call.\<close>

lemma supervise_step_fails:
  assumes "fails env argv buf p t j s e"
  shows "supervise env f ol argv =
    (Inl (Win32Error (step_name s) (thrown_code env s e)), failed_run env f ol argv buf p t j s e)"
proof (cases s)
  case Resolve
  with assms show ?thesis
    by (intro supervise_pair) (auto simp: supervise_unfold completed_run_def failed_run_def)
next
  case Create
  with assms show ?thesis
    by (intro supervise_pair)
       (auto simp: stage_defs supervise_unfold completed_run_def failed_run_def)
next
  case CreateJob
  with assms show ?thesis
    by (intro supervise_pair)
       (auto simp: stage_defs supervise_unfold completed_run_def failed_run_def)
next
  case Limit
  with assms show ?thesis
    by (intro supervise_pair)
       (auto simp: stage_defs supervise_unfold completed_run_def failed_run_def)
next
  case Attach
  with assms show ?thesis
    by (intro supervise_pair)
       (auto simp: stage_defs supervise_unfold completed_run_def failed_run_def)
next
  case Resume
  with assms show ?thesis
    by (intro supervise_pair)
       (auto simp: stage_defs supervise_unfold completed_run_def failed_run_def)
next
  case AwaitExit
  with assms show ?thesis
    by (intro supervise_pair)
       (auto simp: stage_defs supervise_unfold completed_run_def failed_run_def)
next
  case ReadExitCode
  with assms show ?thesis
    by (intro supervise_pair)
       (auto simp: stage_defs supervise_unfold completed_run_def failed_run_def)
next
  case Unlock
  with assms show ?thesis
    by (intro supervise_pair)
       (auto simp: stage_defs supervise_unfold completed_run_def failed_run_def
          split: os_result.splits)
next
  case CloseFile
  with assms show ?thesis
    by (intro supervise_pair)
       (auto simp: stage_defs supervise_unfold completed_run_def failed_run_def
          split: os_result.splits)
qed

text \<open>When a string cannot be built, the exception of the standard library is thrown.\<close>

lemma supervise_string_fails:
  assumes "string_fails env argv buf what"
  shows "supervise env f ol argv =
    (Inl (StdException what),
     if on_std_string env ExecutableName = None
     then [(PathSearchAndQualifyA (enforceExeExtension (argv ! 2)), None)] else [])"
  using assms
  by (intro supervise_pair) (auto simp: string_fails_def stage_defs supervise_unfold)

text \<open>
  These are all the ways: a run after the lock is taken completes, or stops at the
  first step that fails, or at the first string that cannot be built.
\<close>

lemma supervise_cases:
  obtains
    (completed) buf p t j exitCode where
      "exit_code_read env argv buf p t j exitCode"
      "on_UnlockFileEx env = Success ()" "on_CloseHandle_f env = Success ()"
      "supervise env f ol argv = (Inr exitCode, completed_run env f ol argv buf p t j)"
  | (step_failed) buf p t j s e where
      "fails env argv buf p t j s e"
      "supervise env f ol argv =
        (Inl (Win32Error (step_name s) (thrown_code env s e)),
         failed_run env f ol argv buf p t j s e)"
  | (string_failed) buf what where
      "string_fails env argv buf what"
      "supervise env f ol argv =
        (Inl (StdException what),
         if on_std_string env ExecutableName = None
         then [(PathSearchAndQualifyA (enforceExeExtension (argv ! 2)), None)] else [])"
proof -
  have stop: thesis if "fails env argv buf p t j s e" for buf p t j s e
    using step_failed [OF that supervise_step_fails [OF that]] .
  have halt: thesis if "string_fails env argv buf what" for buf what
    using string_failed [OF that supervise_string_fails [OF that]] .
  show thesis
  proof (cases "on_std_string env ExecutableName")
    case (Some what)
    then show thesis by (intro halt [of "[]" what]) (simp add: string_fails_def)
  next
    case s1: None
    show thesis
    proof (cases "on_PathSearchAndQualifyA env (enforceExeExtension (argv ! 2))")
      case (Failure e)
      with s1 show thesis by (intro stop [of "[]" 0 0 0 Resolve e]) simp
    next
      case (Success buf)
      with s1 have r1: "resolved env argv buf" by (simp add: resolved_def)
      show thesis
      proof (cases "on_std_string env ExecutablePath")
        case (Some what)
        with r1 show thesis by (intro halt [of buf what]) (simp add: string_fails_def)
      next
        case s2: None
        show thesis
        proof (cases "on_std_string env CommandLine")
          case (Some what)
          with r1 s2 show thesis by (intro halt [of buf what]) (simp add: string_fails_def)
        next
          case s3: None
          show thesis
          proof (cases "on_CreateProcessA env (c_str buf) (buildCommandLine (c_str buf) argv)")
            case (Failure e)
            with r1 s2 s3 show thesis by (intro stop [of buf 0 0 0 Create e]) simp
          next
            case (Success pt)
            with r1 s2 s3 obtain p t where r2: "created env argv buf p t"
              by (cases pt) (auto simp: created_def)
            show thesis
            proof (cases "on_CreateJobObject env")
              case (Failure e)
              with r2 show thesis by (intro stop [of buf p t 0 CreateJob e]) simp
            next
              case (Success j)
              with r2 have r3: "job_created env argv buf p t j" by (simp add: job_created_def)
              show thesis
              proof (cases "on_SetInformationJobObject env")
                case (Failure e)
                with r3 show thesis by (intro stop [of buf p t j Limit e]) simp
              next
                case (Success u)
                with r3 have r4: "job_limited env argv buf p t j" by (simp add: job_limited_def)
                show thesis
                proof (cases "attach_passed env argv buf p t j")
                  case False
                  with r4 obtain e where "on_AssignProcessToJobObject env = Failure e"
                    "e \<noteq> ERROR_ACCESS_DENIED"
                    by (cases "on_AssignProcessToJobObject env") (auto simp: attach_passed_def)
                  with r4 show thesis by (intro stop [of buf p t j Attach e]) simp
                next
                  case r5: True
                  show thesis
                  proof (cases "on_ResumeThread env")
                    case (Failure e)
                    with r5 show thesis by (intro stop [of buf p t j Resume e]) simp
                  next
                    case (Success u)
                    with r5 have r6: "resumed env argv buf p t j" by (simp add: resumed_def)
                    show thesis
                    proof (cases "on_WaitForSingleObject env")
                      case (Failure e)
                      with r6 show thesis by (intro stop [of buf p t j AwaitExit e]) simp
                    next
                      case (Success u)
                      with r6 have r7: "exited env argv buf p t j" by (simp add: exited_def)
                      show thesis
                      proof (cases "on_GetExitCodeProcess env")
                        case (Failure e)
                        with r7 show thesis by (intro stop [of buf p t j ReadExitCode e]) simp
                      next
                        case r8: (Success exitCode)
                        show thesis
                        proof (cases "on_UnlockFileEx env")
                          case (Failure e)
                          with r7 r8 show thesis by (intro stop [of buf p t j Unlock e]) simp
                        next
                          case r9: (Success u)
                          show thesis
                          proof (cases "on_CloseHandle_f env")
                            case (Failure e)
                            with r7 r8 r9 show thesis
                              by (intro stop [of buf p t j CloseFile e]) simp
                          next
                            case r10: (Success u')
                            from r7 r8 have "exit_code_read env argv buf p t j exitCode"
                              by (simp add: exit_code_read_def)
                            from completed [OF this _ _ supervise_completes [OF this]] r9 r10
                            show thesis by simp
                          qed
                        qed
                      qed
                    qed
                  qed
                qed
              qed
            qed
          qed
        qed
      qed
    qed
  qed
qed

subsection \<open>The trace of the process\<close>

lemma trace_main:
  "trace (main env argv) =
     (if length argv < 3 then []
      else snd (try_block env argv) @
        (case fst (try_block env argv) of
           Inl (Win32Error what e) \<Rightarrow> [(FormatMessageA e, error_of (on_FormatMessageA env e))]
         | _ \<Rightarrow> []))"
proof (cases "try_block env argv")
  case (Pair r tr)
  then show ?thesis
    by (cases r; simp add: main_def catch_Win32Error_def catch_exception_def Let_def
        split: failure.splits)
qed

lemma list_ex_trace_main:
  assumes "\<And>e r. \<not> P (FormatMessageA e, r)"
  shows "list_ex P (trace (main env argv))
     \<longleftrightarrow> 3 \<le> length argv \<and> list_ex P (snd (try_block env argv))"
  using assms by (auto simp: trace_main split: sum.splits failure.splits)




subsection \<open>Acquisition: retries, errors and the time-out\<close>

lemma acquire_ok:
  assumes "k < 300" "contended env k" "on_LockFileEx env k = Success ()"
  shows "acquire env f ol 0 = (Inr True, retries f ol k @ [(lock_call f ol, None)])"
  using acquire_skip [of 0 k env f ol] assms
  by (simp add: contended_iff acquire_step_ok)

lemma acquire_error:
  assumes "k < 300" "contended env k" "on_LockFileEx env k = Failure e"
    "e \<noteq> ERROR_LOCK_VIOLATION"
  shows "acquire env f ol 0
     = (Inl (Win32Error ''LockFileEx'' e), retries f ol k @ [(lock_call f ol, Some e)])"
  using acquire_skip [of 0 k env f ol] assms
  by (simp add: contended_iff acquire_step_error)

lemma acquire_exhausted:
  assumes "contended env 300"
  shows "acquire env f ol 0 = (Inr False, retries f ol 300)"
  using acquire_skip [of 0 300 env f ol] assms
  by (simp add: contended_iff acquire_step_end)

lemma supervise_no_lock_call:
  "filter (called ''LockFileEx'') (snd (supervise env f ol argv)) = []"
proof (cases env f ol argv rule: supervise_cases)
  case (step_failed buf p t j s e)
  then show ?thesis
    by (cases s) (auto simp: completed_run_def failed_run_def called_def)
qed (auto simp: completed_run_def called_def)

lemma list_all_retries:
  "list_all P (retries f ol k) \<longleftrightarrow>
     k = 0 \<or> (P (lock_call f ol, Some ERROR_LOCK_VIOLATION) \<and> P (Sleep 1000, None))"
  by (induction k) (auto simp: retries_0 retries_Suc)





lemma try_block_exhausted:
  assumes "on_CreateFileA env (argv ! 1) = Success n" "contended env 300"
  shows "try_block env argv =
    (Inl (Win32Error ''LockFileEx'' ERROR_LOCK_VIOLATION),
     (CreateFileA (argv ! 1), None) # retries (FileHandle n) ZeroMemory 300)"
  using try_block_timeout [OF assms(1) acquire_exhausted [OF assms(2)]] .

lemma retries_empty: "retries f ol k = [] \<longleftrightarrow> k = 0"
  by (cases k) (simp_all add: retries_0 retries_Suc)

lemma last_retries: "0 < k \<Longrightarrow> last (retries f ol k) = (Sleep 1000, None)"
proof (induction k)
  case (Suc k)
  then show ?case by (cases "k = 0") (simp_all add: retries_0 retries_Suc retries_empty)
qed simp

text \<open>
  Claim C9. When the lock file is open and all 300 attempts meet contention, the
  \<^verbatim>\<open>try\<close> block makes 300 \<^verbatim>\<open>LockFileEx\<close> calls, each followed by a \<^verbatim>\<open>Sleep\<close> of
  1000 milliseconds, the 300th too: the last call before the time-out error is thrown
  is a \<^verbatim>\<open>Sleep\<close>, and there are 300 of each.
\<close>

theorem C9_timeout_after_300_sleeps:
  assumes "on_CreateFileA env (argv ! 1) = Success n" "contended env 300"
  shows "try_block env argv =
           (Inl (Win32Error ''LockFileEx'' ERROR_LOCK_VIOLATION),
            (CreateFileA (argv ! 1), None) # retries (FileHandle n) ZeroMemory 300)
       \<and> length (filter (called ''LockFileEx'') (snd (try_block env argv))) = 300
       \<and> length (filter (called ''Sleep'') (snd (try_block env argv))) = 300
       \<and> last (snd (try_block env argv)) = (Sleep 1000, None)"
  by (simp add: try_block_exhausted [OF assms] filter_retries_lock filter_retries_sleep
      called_def last_retries retries_empty)

theorem C9_timeout_after_300_sleeps_witness:
  "on_CreateFileA busy_forever (sample_argv ! 1) = Success 1 \<and> contended busy_forever 300 \<and>
   length (filter (called ''Sleep'') (snd (try_block busy_forever sample_argv))) = 300 \<and>
   last (snd (try_block busy_forever sample_argv)) = (Sleep 1000, None)"
proof -
  have h: "on_CreateFileA busy_forever (sample_argv ! 1) = Success 1" by code_simp
  have c: "contended busy_forever 300" by code_simp
  from C9_timeout_after_300_sleeps [OF h c] h c show ?thesis by blast
qed

lemma supervise_not_LockFileEx:
  "fst (supervise env f ol argv) \<noteq> Inl (Win32Error ''LockFileEx'' e)"
proof (cases env f ol argv rule: supervise_cases)
  case (step_failed buf p t j s e')
  then show ?thesis by (cases s) auto
qed auto

lemma decimal_33: "decimal (unat ERROR_LOCK_VIOLATION) = ''33''"
  by code_simp

text \<open>
  Claim C4. The \<^verbatim>\<open>try\<close> block throws \<^verbatim>\<open>Win32Error( "LockFileEx",
  ERROR_LOCK_VIOLATION )\<close> exactly when the lock file was opened and all 300 attempts
  met contention: no other failure gives this operation with this code. The process
  then exits with status \<^verbatim>\<open>ERROR_LOCK_VIOLATION\<close> (33) and names the operation and
  the code on standard error.
\<close>

theorem C4_timeout_distinguished:
  "(fst (try_block env argv) = Inl (Win32Error ''LockFileEx'' ERROR_LOCK_VIOLATION)
      \<longleftrightarrow> (\<exists>n. on_CreateFileA env (argv ! 1) = Success n) \<and> contended env 300)
   \<and> (3 \<le> length argv \<and>
      fst (try_block env argv) = Inl (Win32Error ''LockFileEx'' ERROR_LOCK_VIOLATION) \<longrightarrow>
      exit_code (main env argv) = ERROR_LOCK_VIOLATION \<and>
      stderr (main env argv) =
        ''error: LockFileEx failed: '' @ message_buffer (on_FormatMessageA env ERROR_LOCK_VIOLATION)
        @ '' (code 33)'' @ [LF])"
proof -
  have a: "(\<exists>n. on_CreateFileA env (argv ! 1) = Success n) \<and> contended env 300"
    if "fst (try_block env argv) = Inl (Win32Error ''LockFileEx'' ERROR_LOCK_VIOLATION)"
    using that
    by (cases env argv rule: try_block_cases) (simp_all add: supervise_not_LockFileEx)
  have b: "fst (try_block env argv) = Inl (Win32Error ''LockFileEx'' ERROR_LOCK_VIOLATION)"
    if "on_CreateFileA env (argv ! 1) = Success n" "contended env 300" for n
    using try_block_exhausted [OF that] by simp
  have c: "exit_code (main env argv) = ERROR_LOCK_VIOLATION \<and>
      stderr (main env argv) =
        ''error: LockFileEx failed: '' @ message_buffer (on_FormatMessageA env ERROR_LOCK_VIOLATION)
        @ '' (code 33)'' @ [LF]"
    if "3 \<le> length argv"
      "fst (try_block env argv) = Inl (Win32Error ''LockFileEx'' ERROR_LOCK_VIOLATION)"
    using main_Win32Error [OF that]
    by (simp add: catch_Win32Error_def Let_def decimal_33)
  from a b c show ?thesis by blast
qed

theorem C4_timeout_distinguished_witness:
  "3 \<le> length sample_argv \<and>
   fst (try_block busy_forever sample_argv) = Inl (Win32Error ''LockFileEx'' ERROR_LOCK_VIOLATION) \<and>
   contended busy_forever 300 \<and>
   exit_code (main busy_forever sample_argv) = ERROR_LOCK_VIOLATION"
proof -
  have h: "3 \<le> length sample_argv" by code_simp
  have o: "on_CreateFileA busy_forever (sample_argv ! 1) = Success 1" by code_simp
  have c: "contended busy_forever 300" by code_simp
  from C4_timeout_distinguished [of busy_forever sample_argv] h o c show ?thesis by blast
qed

subsection \<open>The locked byte range\<close>

lemma supervise_ranges:
  "list_all (\<lambda>ev. called ''LockFileEx'' ev \<or> called ''UnlockFileEx'' ev \<longrightarrow>
      fst ev = UnlockFileEx f 0 1 0 ol) (snd (supervise env f ol argv))"
proof (cases env f ol argv rule: supervise_cases)
  case (step_failed buf p t j s e)
  then show ?thesis
    by (cases s) (auto simp: completed_run_def failed_run_def called_def)
qed (auto simp: completed_run_def called_def)

lemma qword_0: "qword 0 0 = 0" and qword_1: "qword 1 0 = 1"
  by (simp_all add: qword_def)

lemma byte_range_lock: "byte_range (lock_call f ZeroMemory) = Some (f, 0, 1)"
  by (simp add: lock_call_def ZeroMemory_def qword_0 qword_1)

lemma byte_range_unlock: "byte_range (UnlockFileEx f 0 1 0 ZeroMemory) = Some (f, 0, 1)"
  by (simp add: ZeroMemory_def qword_0 qword_1)

lemma list_all_trace_main:
  assumes "\<And>e r. P (FormatMessageA e, r)" "list_all P (snd (try_block env argv))"
  shows "list_all P (trace (main env argv))"
  using assms by (auto simp: trace_main split: sum.splits failure.splits)

text \<open>
  Claim C10. Every \<^verbatim>\<open>LockFileEx\<close> and every \<^verbatim>\<open>UnlockFileEx\<close> call of a run is made
  on the handle of the lock file with the same zeroed \<^verbatim>\<open>OVERLAPPED\<close> structure and
  the length 1 (low part 1, high part 0): the byte range of each is the one byte at
  offset 0, so the call that unlocks names exactly the range the call that locked
  named.
\<close>

theorem C10_same_byte_range:
  assumes "on_CreateFileA env (argv ! 1) = Success n"
  shows "list_all (\<lambda>ev.
           (called ''LockFileEx'' ev \<longrightarrow>
              fst ev = LockFileEx (FileHandle n)
                         (LOCKFILE_EXCLUSIVE_LOCK OR LOCKFILE_FAIL_IMMEDIATELY) 0 1 0 ZeroMemory) \<and>
           (called ''UnlockFileEx'' ev \<longrightarrow>
              fst ev = UnlockFileEx (FileHandle n) 0 1 0 ZeroMemory) \<and>
           (called ''LockFileEx'' ev \<or> called ''UnlockFileEx'' ev \<longrightarrow>
              byte_range (fst ev) = Some (FileHandle n, 0, 1)))
         (trace (main env argv))"
proof (rule list_all_trace_main)
  show "\<And>e r. (called ''LockFileEx'' (FormatMessageA e, r) \<longrightarrow>
              fst (FormatMessageA e, r) = LockFileEx (FileHandle n)
                         (LOCKFILE_EXCLUSIVE_LOCK OR LOCKFILE_FAIL_IMMEDIATELY) 0 1 0 ZeroMemory) \<and>
           (called ''UnlockFileEx'' (FormatMessageA e, r) \<longrightarrow>
              fst (FormatMessageA e, r) = UnlockFileEx (FileHandle n) 0 1 0 ZeroMemory) \<and>
           (called ''LockFileEx'' (FormatMessageA e, r) \<or> called ''UnlockFileEx'' (FormatMessageA e, r) \<longrightarrow>
              byte_range (fst (FormatMessageA e, r)) = Some (FileHandle n, 0, 1))"
    by (simp add: called_def)
next
  let ?P = "\<lambda>ev.
           (called ''LockFileEx'' ev \<longrightarrow>
              fst ev = LockFileEx (FileHandle n)
                         (LOCKFILE_EXCLUSIVE_LOCK OR LOCKFILE_FAIL_IMMEDIATELY) 0 1 0 ZeroMemory) \<and>
           (called ''UnlockFileEx'' ev \<longrightarrow>
              fst ev = UnlockFileEx (FileHandle n) 0 1 0 ZeroMemory) \<and>
           (called ''LockFileEx'' ev \<or> called ''UnlockFileEx'' ev \<longrightarrow>
              byte_range (fst ev) = Some (FileHandle n, 0, 1))"
  have s: "list_all ?P (snd (supervise env (FileHandle n) ZeroMemory argv))"
    unfolding list_all_iff
  proof (intro ballI)
    fix ev assume "ev \<in> set (snd (supervise env (FileHandle n) ZeroMemory argv))"
    with supervise_ranges [of "FileHandle n" ZeroMemory env argv, unfolded list_all_iff]
    have r: "called ''LockFileEx'' ev \<or> called ''UnlockFileEx'' ev \<longrightarrow>
        fst ev = UnlockFileEx (FileHandle n) 0 1 0 ZeroMemory" by blast
    show "?P ev"
    proof (cases "called ''LockFileEx'' ev \<or> called ''UnlockFileEx'' ev")
      case True
      with r have "fst ev = UnlockFileEx (FileHandle n) 0 1 0 ZeroMemory" by simp
      then show ?thesis by (simp add: called_def ZeroMemory_def qword_0 qword_1)
    next
      case False
      then show ?thesis by simp
    qed
  qed
  have l: "?P (lock_call (FileHandle n) ZeroMemory, r)" for r
    using byte_range_lock [of "FileHandle n"] by (simp add: called_def lock_call_def)
  have sl: "?P (Sleep 1000, None)" by (simp add: called_def)
  have c: "?P (CreateFileA (argv ! 1), None)" by (simp add: called_def)
  show "list_all ?P (snd (try_block env argv))"
  proof (cases env argv rule: try_block_cases)
    case (acquired n' k)
    with assms s l sl c show ?thesis by (simp add: list_all_retries)
  next
    case (lock_error n' k e)
    with assms l sl c show ?thesis by (simp add: list_all_retries)
  next
    case (timeout n')
    with assms l sl c show ?thesis by (simp add: list_all_retries)
  qed (use assms in simp)
qed

theorem C10_same_byte_range_witness:
  "on_CreateFileA calm (sample_argv ! 1) = Success 1 \<and>
   list_all (\<lambda>ev.
           (called ''LockFileEx'' ev \<longrightarrow>
              fst ev = LockFileEx (FileHandle 1)
                         (LOCKFILE_EXCLUSIVE_LOCK OR LOCKFILE_FAIL_IMMEDIATELY) 0 1 0 ZeroMemory) \<and>
           (called ''UnlockFileEx'' ev \<longrightarrow>
              fst ev = UnlockFileEx (FileHandle 1) 0 1 0 ZeroMemory) \<and>
           (called ''LockFileEx'' ev \<or> called ''UnlockFileEx'' ev \<longrightarrow>
              byte_range (fst ev) = Some (FileHandle 1, 0, 1)))
         (trace (main calm sample_argv))"
proof -
  have h: "on_CreateFileA calm (sample_argv ! 1) = Success 1" by code_simp
  show ?thesis by (intro conjI h C10_same_byte_range [OF h])
qed

subsection \<open>Runs that complete\<close>

lemma try_block_acquired_run:
  assumes "acquired env argv n k"
  shows "try_block env argv =
     (fst (supervise env (FileHandle n) ZeroMemory argv),
      (CreateFileA (argv ! 1), None) # retries (FileHandle n) ZeroMemory k
      @ (lock_call (FileHandle n) ZeroMemory, None)
      # snd (supervise env (FileHandle n) ZeroMemory argv))"
proof -
  from assms have o: "on_CreateFileA env (argv ! 1) = Success n"
    and a: "k < 300" "contended env k" "on_LockFileEx env k = Success ()"
    by (simp_all add: acquired_def)
  from try_block_acquired [OF o acquire_ok [OF a]] show ?thesis by simp
qed

lemma try_block_completes:
  assumes "completes env argv n k buf p t j exitCode"
  shows "try_block env argv =
     (Inr exitCode,
      (CreateFileA (argv ! 1), None) # retries (FileHandle n) ZeroMemory k
      @ (lock_call (FileHandle n) ZeroMemory, None)
      # completed_run env (FileHandle n) ZeroMemory argv buf p t j)"
proof -
  from assms have a: "acquired env argv n k"
    and c: "exit_code_read env argv buf p t j exitCode"
      "on_UnlockFileEx env = Success ()" "on_CloseHandle_f env = Success ()"
    by (simp_all add: completes_def)
  show ?thesis
    by (simp add: try_block_acquired_run [OF a] supervise_completes [OF c])
qed

lemma try_block_completed:
  assumes "fst (try_block env argv) = Inr exitCode"
  shows "\<exists>n k buf p t j. completes env argv n k buf p t j exitCode"
proof (cases env argv rule: try_block_cases)
  case (acquired n k)
  then have a: "acquired env argv n k" by (simp add: acquired_def)
  from assms acquired(5) have s: "fst (supervise env (FileHandle n) ZeroMemory argv) = Inr exitCode"
    by simp
  then show ?thesis
  proof (cases env "FileHandle n" ZeroMemory argv rule: supervise_cases)
    case (completed buf p t j exitCode')
    with s a have "completes env argv n k buf p t j exitCode" by (simp add: completes_def)
    then show ?thesis by blast
  qed simp_all
qed (use assms in simp_all)

lemma completed_run_attached_before_resume:
  assumes "on_AssignProcessToJobObject env = Success ()"
  shows "strictly_before (succeeded ''AssignProcessToJobObject'') (called ''ResumeThread'')
     (completed_run env f ol argv buf p t j)"
  by (rule strictly_beforeI [where pre = "take 8 (completed_run env f ol argv buf p t j)"
        and post = "drop 8 (completed_run env f ol argv buf p t j)"])
     (simp_all add: completed_run_def called_def succeeded_def assms)

text \<open>
  Claim C2, as amended. A run completes exactly when every step succeeds, the
  attachment to the job object having succeeded or been denied. Such a run makes its
  calls in one fixed order: the lock file is opened, the lock is taken after fewer
  than 300 attempts that met contention, and then every step of a completed run
  follows. So the lock is acquired strictly before \<^verbatim>\<open>CreateProcessA\<close>,
  \<^verbatim>\<open>AssignProcessToJobObject\<close> is called strictly before \<^verbatim>\<open>ResumeThread\<close>, and
  \<^verbatim>\<open>UnlockFileEx\<close> comes strictly after the exit code has been read. Creation
  (suspended), the attempt at attachment, resumption and the wait happen once each,
  in this order. When the attachment succeeded, the child is attached strictly
  before it is resumed; when it was denied, the child is resumed although it was
  never attached.
\<close>

theorem C2_steps_in_order_amended:
  assumes "3 \<le> length argv"
  shows "(fst (try_block env argv) = Inr exitCode \<longrightarrow>
            (\<exists>n k buf p t j. completes env argv n k buf p t j exitCode))
   \<and> (completes env argv n k buf p t j exitCode \<longrightarrow>
       fst (try_block env argv) = Inr exitCode \<and>
       trace (main env argv) =
         (CreateFileA (argv ! 1), None) # retries (FileHandle n) ZeroMemory k
         @ (lock_call (FileHandle n) ZeroMemory, None)
         # completed_run env (FileHandle n) ZeroMemory argv buf p t j \<and>
       strictly_before (succeeded ''LockFileEx'') (called ''CreateProcessA'')
         (trace (main env argv)) \<and>
       strictly_before (called ''AssignProcessToJobObject'') (called ''ResumeThread'')
         (trace (main env argv)) \<and>
       strictly_before (succeeded ''GetExitCodeProcess'') (called ''UnlockFileEx'')
         (trace (main env argv)) \<and>
       filter child_step (trace (main env argv)) =
         [(CreateProcessA (c_str buf) (buildCommandLine (c_str buf) argv) True CREATE_SUSPENDED,
           None),
          (AssignProcessToJobObject (JobHandle j) (ProcessHandle p),
           error_of (on_AssignProcessToJobObject env)),
          (ResumeThread (ThreadHandle t), None),
          (WaitForSingleObject (ProcessHandle p) INFINITE, None)] \<and>
       (on_AssignProcessToJobObject env = Success () \<longrightarrow>
          strictly_before (succeeded ''AssignProcessToJobObject'') (called ''ResumeThread'')
            (trace (main env argv))) \<and>
       (on_AssignProcessToJobObject env = Failure ERROR_ACCESS_DENIED \<longrightarrow>
          \<not> list_ex (succeeded ''AssignProcessToJobObject'') (trace (main env argv)) \<and>
          list_ex (succeeded ''ResumeThread'') (trace (main env argv))))"
proof (intro conjI impI)
  assume "fst (try_block env argv) = Inr exitCode"
  then show "\<exists>n k buf p t j. completes env argv n k buf p t j exitCode"
    by (rule try_block_completed)
next
  assume c: "completes env argv n k buf p t j exitCode"
  let ?f = "FileHandle n"
  let ?A = "(CreateFileA (argv ! 1), None) # retries ?f ZeroMemory k
            @ [(lock_call ?f ZeroMemory, None)]"
  let ?C = "completed_run env ?f ZeroMemory argv buf p t j"
  from try_block_completes [OF c] have t: "try_block env argv = (Inr exitCode, ?A @ ?C)"
    by simp
  then show r: "fst (try_block env argv) = Inr exitCode" by simp
  have tr: "trace (main env argv) = ?A @ ?C"
    using main_completed [OF assms r] t by simp
  then show "trace (main env argv) =
         (CreateFileA (argv ! 1), None) # retries ?f ZeroMemory k
         @ (lock_call ?f ZeroMemory, None) # ?C" by simp
  have A_create: "\<not> list_ex (called ''CreateProcessA'') ?A"
    and A_resume: "\<not> list_ex (called ''ResumeThread'') ?A"
    and A_unlock: "\<not> list_ex (called ''UnlockFileEx'') ?A"
    and A_lock: "list_ex (succeeded ''LockFileEx'') ?A"
    and A_attach: "\<not> list_ex (succeeded ''AssignProcessToJobObject'') ?A"
    and A_resumed: "\<not> list_ex (succeeded ''ResumeThread'') ?A"
    by (simp_all add: list_ex_retries called_def succeeded_def lock_call_def)
  have C_lock: "\<not> list_ex (succeeded ''LockFileEx'') ?C"
    and C_create: "list_ex (called ''CreateProcessA'') ?C"
    and C_resumed: "list_ex (succeeded ''ResumeThread'') ?C"
    by (simp_all add: completed_run_def called_def succeeded_def)
  show "strictly_before (succeeded ''LockFileEx'') (called ''CreateProcessA'')
       (trace (main env argv))"
    using tr A_lock A_create C_create C_lock by (rule strictly_beforeI)
  show "strictly_before (called ''AssignProcessToJobObject'') (called ''ResumeThread'')
       (trace (main env argv))"
    unfolding tr using completed_run_attach_before_resume A_resume
    by (rule strictly_before_prepend)
  show "strictly_before (succeeded ''GetExitCodeProcess'') (called ''UnlockFileEx'')
       (trace (main env argv))"
    unfolding tr using completed_run_exit_code_before_unlock A_unlock
    by (rule strictly_before_prepend)
  have "filter child_step (trace (main env argv)) = filter child_step ?C"
    unfolding tr by (simp add: filter_child_step_retries child_step_def lock_call_def)
  then show "filter child_step (trace (main env argv)) =
         [(CreateProcessA (c_str buf) (buildCommandLine (c_str buf) argv) True CREATE_SUSPENDED,
           None),
          (AssignProcessToJobObject (JobHandle j) (ProcessHandle p),
           error_of (on_AssignProcessToJobObject env)),
          (ResumeThread (ThreadHandle t), None),
          (WaitForSingleObject (ProcessHandle p) INFINITE, None)]"
    by (simp only: completed_run_child_steps)
  {
    assume "on_AssignProcessToJobObject env = Success ()"
    then show "strictly_before (succeeded ''AssignProcessToJobObject'') (called ''ResumeThread'')
            (trace (main env argv))"
      unfolding tr using A_resume
      by (intro strictly_before_prepend completed_run_attached_before_resume)
  }
  {
    assume d: "on_AssignProcessToJobObject env = Failure ERROR_ACCESS_DENIED"
    then have "\<not> list_ex (succeeded ''AssignProcessToJobObject'') ?C"
      by (simp add: completed_run_def succeeded_def)
    with A_attach show "\<not> list_ex (succeeded ''AssignProcessToJobObject'') (trace (main env argv))"
      unfolding tr by simp
    from C_resumed show "list_ex (succeeded ''ResumeThread'') (trace (main env argv))"
      unfolding tr by simp
  }
qed

theorem C2_steps_in_order_amended_witness:
  "3 \<le> length sample_argv \<and>
   completes job_denied sample_argv 1 0 ''C:/bin/myecho.exe'' 2 3 4 7 \<and>
   on_AssignProcessToJobObject job_denied = Failure ERROR_ACCESS_DENIED \<and>
   fst (try_block job_denied sample_argv) = Inr 7 \<and>
   strictly_before (called ''AssignProcessToJobObject'') (called ''ResumeThread'')
     (trace (main job_denied sample_argv)) \<and>
   \<not> list_ex (succeeded ''AssignProcessToJobObject'') (trace (main job_denied sample_argv)) \<and>
   completes busy_once sample_argv 1 1 ''C:/bin/myecho.exe'' 2 3 4 7 \<and>
   on_AssignProcessToJobObject busy_once = Success () \<and>
   strictly_before (succeeded ''AssignProcessToJobObject'') (called ''ResumeThread'')
     (trace (main busy_once sample_argv))"
proof -
  have h: "3 \<le> length sample_argv" by code_simp
  have c1: "completes job_denied sample_argv 1 0 ''C:/bin/myecho.exe'' 2 3 4 7" by code_simp
  have d: "on_AssignProcessToJobObject job_denied = Failure ERROR_ACCESS_DENIED" by code_simp
  have c2: "completes busy_once sample_argv 1 1 ''C:/bin/myecho.exe'' 2 3 4 7" by code_simp
  have s: "on_AssignProcessToJobObject busy_once = Success ()" by code_simp
  from C2_steps_in_order_amended [OF h, of job_denied 7 1 0 "''C:/bin/myecho.exe''" 2 3 4]
    C2_steps_in_order_amended [OF h, of busy_once 7 1 1 "''C:/bin/myecho.exe''" 2 3 4]
    h c1 d c2 s
  show ?thesis by blast
qed

text \<open>
  The claim as stated fails where the attachment is denied: the run completes with
  the child's exit code 7 and the child is resumed, but no call has attached it to
  the job object, so it is not attached before it is resumed.
\<close>

theorem C2_steps_in_order_counterexample:
  "fst (try_block job_denied sample_argv) = Inr 7 \<and>
   exit_code (main job_denied sample_argv) = 7 \<and>
   list_ex (succeeded ''ResumeThread'') (trace (main job_denied sample_argv)) \<and>
   \<not> list_ex (succeeded ''AssignProcessToJobObject'') (trace (main job_denied sample_argv)) \<and>
   \<not> strictly_before (succeeded ''AssignProcessToJobObject'') (called ''ResumeThread'')
       (trace (main job_denied sample_argv))"
  by code_simp

subsection \<open>Release of the lock\<close>

lemma strictly_before_append:
  assumes "strictly_before P Q C" "\<not> list_ex P B"
  shows "strictly_before P Q (C @ B)"
proof -
  from assms(1) obtain n where n: "n \<in> set [0..<Suc (length C)]"
    "list_ex P (take n C)" "\<not> list_ex Q (take n C)"
    "list_ex Q (drop n C)" "\<not> list_ex P (drop n C)"
    unfolding strictly_before_def list_ex_iff [of _ "[0..<Suc (length C)]"] by blast
  then have "n \<le> length C" by auto
  then have "C @ B = take n C @ (drop n C @ B)" by simp
  then show ?thesis
    by (rule strictly_beforeI) (use n assms(2) in simp_all)
qed

text \<open>The trace of the process when the lock has been taken.\<close>

lemma trace_main_acquired:
  assumes "3 \<le> length argv" "acquired env argv n k"
  obtains fm where
    "trace (main env argv) =
       ((CreateFileA (argv ! 1), None) # retries (FileHandle n) ZeroMemory k
        @ [(lock_call (FileHandle n) ZeroMemory, None)])
       @ snd (supervise env (FileHandle n) ZeroMemory argv) @ fm"
    "list_all (called ''FormatMessageA'') fm"
proof -
  let ?fm = "case fst (try_block env argv) of
           Inl (Win32Error what e) \<Rightarrow> [(FormatMessageA e, error_of (on_FormatMessageA env e))]
         | _ \<Rightarrow> []"
  have "list_all (called ''FormatMessageA'') ?fm"
    by (simp add: called_def split: sum.splits failure.splits)
  moreover have "trace (main env argv) =
       ((CreateFileA (argv ! 1), None) # retries (FileHandle n) ZeroMemory k
        @ [(lock_call (FileHandle n) ZeroMemory, None)])
       @ snd (supervise env (FileHandle n) ZeroMemory argv) @ ?fm"
    using assms(1) by (simp add: trace_main try_block_acquired_run [OF assms(2)])
  ultimately show thesis using that by blast
qed

lemma failed_run_no_release:
  assumes "s \<in> set [Resolve, Create, CreateJob, Limit, Attach, Resume, AwaitExit, ReadExitCode]"
  shows "\<not> list_ex (called ''UnlockFileEx'') (failed_run env f ol argv buf p t j s e) \<and>
         \<not> list_ex closes_file (failed_run env f ol argv buf p t j s e)"
  using assms by (auto simp: failed_run_def completed_run_def called_def)

lemma supervise_released:
  assumes "exit_code_read env argv buf p t j exitCode"
  shows "strictly_before (succeeded ''GetExitCodeProcess'') (called ''UnlockFileEx'')
           (snd (supervise env (FileHandle n) ol argv)) \<and>
         (list_ex closes_file (snd (supervise env (FileHandle n) ol argv))
            \<longleftrightarrow> on_UnlockFileEx env = Success ()) \<and>
         (on_UnlockFileEx env = Success () \<longrightarrow>
            strictly_before (succeeded ''UnlockFileEx'') closes_file
              (snd (supervise env (FileHandle n) ol argv)))"
proof -
  let ?C = "completed_run env (FileHandle n) ol argv buf p t j"
  from assms have x: "exited env argv buf p t j"
    and g: "on_GetExitCodeProcess env = Success exitCode"
    by (simp_all add: exit_code_read_def)
  show ?thesis
  proof (cases "on_UnlockFileEx env")
    case (Failure e)
    with x g have "fails env argv buf p t j Unlock e" by simp
    from supervise_step_fails [OF this, of "FileHandle n" ol]
    have s: "snd (supervise env (FileHandle n) ol argv)
        = take 11 ?C @ [(UnlockFileEx (FileHandle n) 0 1 0 ol, Some e)]"
      by (simp add: failed_run_def completed_run_def)
    have "strictly_before (succeeded ''GetExitCodeProcess'') (called ''UnlockFileEx'')
           (snd (supervise env (FileHandle n) ol argv))"
      using s by (rule strictly_beforeI) (simp_all add: completed_run_def called_def succeeded_def)
    moreover have "\<not> list_ex closes_file (snd (supervise env (FileHandle n) ol argv))"
      unfolding s by (simp add: completed_run_def)
    ultimately show ?thesis using Failure by simp
  next
    case u: (Success u)
    show ?thesis
    proof (cases "on_CloseHandle_f env")
      case (Failure e)
      with x g u have "fails env argv buf p t j CloseFile e" by simp
      from supervise_step_fails [OF this, of "FileHandle n" ol]
      have s: "snd (supervise env (FileHandle n) ol argv)
          = take 11 ?C @ (drop 11 (take 12 ?C) @ [(CloseHandle (FileHandle n), Some e)])"
        and s': "snd (supervise env (FileHandle n) ol argv)
          = take 12 ?C @ [(CloseHandle (FileHandle n), Some e)]"
        by (simp_all add: failed_run_def completed_run_def)
      have 1: "strictly_before (succeeded ''GetExitCodeProcess'') (called ''UnlockFileEx'')
           (snd (supervise env (FileHandle n) ol argv))"
        using s by (rule strictly_beforeI) (simp_all add: completed_run_def called_def succeeded_def)
      have 2: "strictly_before (succeeded ''UnlockFileEx'') closes_file
           (snd (supervise env (FileHandle n) ol argv))"
        using s' by (rule strictly_beforeI) (simp_all add: completed_run_def succeeded_def)
      have 3: "list_ex closes_file (snd (supervise env (FileHandle n) ol argv))"
        unfolding s' by simp
      from 1 2 3 u show ?thesis by simp
    next
      case c: (Success u')
      from supervise_completes [OF assms _ _, of "FileHandle n" ol] u c
      have s: "snd (supervise env (FileHandle n) ol argv) = take 11 ?C @ drop 11 ?C"
        and s': "snd (supervise env (FileHandle n) ol argv) = take 12 ?C @ drop 12 ?C"
        by simp_all
      have 1: "strictly_before (succeeded ''GetExitCodeProcess'') (called ''UnlockFileEx'')
           (snd (supervise env (FileHandle n) ol argv))"
        using s by (rule strictly_beforeI) (simp_all add: completed_run_def called_def succeeded_def)
      have 2: "strictly_before (succeeded ''UnlockFileEx'') closes_file
           (snd (supervise env (FileHandle n) ol argv))"
        using s' by (rule strictly_beforeI) (simp_all add: completed_run_def succeeded_def)
      have 3: "list_ex closes_file (snd (supervise env (FileHandle n) ol argv))"
        unfolding s' by (simp add: completed_run_def)
      from 1 2 3 u show ?thesis by simp
    qed
  qed
qed

text \<open>
  Claim C1, as amended. Take a run that has acquired the lock. When a later step
  fails (the search for the executable, the creation of the process, the creation
  of the job object, the setting of its limit, the attachment with an error other
  than \<^verbatim>\<open>ERROR_ACCESS_DENIED\<close>, the resumption, the wait, or the reading of the exit
  code) or a string cannot be built, the process exits with the status of that
  failure and has called neither \<^verbatim>\<open>UnlockFileEx\<close> nor \<^verbatim>\<open>CloseHandle\<close> on the lock
  file. When all these steps succeed (the attachment may have been denied),
  \<^verbatim>\<open>UnlockFileEx\<close> is called after the lock was acquired and after the exit code was
  read, and \<^verbatim>\<open>CloseHandle\<close> is called on the lock file, after it, exactly when
  \<^verbatim>\<open>UnlockFileEx\<close> succeeded. Every run that has acquired the lock is of one of
  these kinds.
\<close>

theorem C1_release_amended:
  assumes "3 \<le> length argv" "acquired env argv n k"
  shows "list_ex (succeeded ''LockFileEx'') (trace (main env argv))
   \<and> (fails env argv buf p t j s e \<and>
      s \<in> set [Resolve, Create, CreateJob, Limit, Attach, Resume, AwaitExit, ReadExitCode] \<longrightarrow>
        \<not> list_ex (called ''UnlockFileEx'') (trace (main env argv)) \<and>
        \<not> list_ex closes_file (trace (main env argv)) \<and>
        exit_code (main env argv) = thrown_code env s e)
   \<and> (string_fails env argv buf what \<longrightarrow>
        \<not> list_ex (called ''UnlockFileEx'') (trace (main env argv)) \<and>
        \<not> list_ex closes_file (trace (main env argv)) \<and>
        exit_code (main env argv) = 1)
   \<and> (exit_code_read env argv buf p t j exitCode \<longrightarrow>
        strictly_before (succeeded ''LockFileEx'') (called ''UnlockFileEx'')
          (trace (main env argv)) \<and>
        strictly_before (succeeded ''GetExitCodeProcess'') (called ''UnlockFileEx'')
          (trace (main env argv)) \<and>
        (list_ex closes_file (trace (main env argv)) \<longleftrightarrow> on_UnlockFileEx env = Success ()) \<and>
        (on_UnlockFileEx env = Success () \<longrightarrow>
           strictly_before (succeeded ''UnlockFileEx'') closes_file (trace (main env argv))))
   \<and> ((\<exists>buf p t j s e. fails env argv buf p t j s e \<and>
          s \<in> set [Resolve, Create, CreateJob, Limit, Attach, Resume, AwaitExit, ReadExitCode])
      \<or> (\<exists>buf what. string_fails env argv buf what)
      \<or> (\<exists>buf p t j exitCode. exit_code_read env argv buf p t j exitCode))"
proof -
  let ?f = "FileHandle n"
  let ?S = "snd (supervise env ?f ZeroMemory argv)"
  define A where "A = (CreateFileA (argv ! 1), None) # retries ?f ZeroMemory k
            @ [(lock_call ?f ZeroMemory, None)]"
  from trace_main_acquired [OF assms] obtain fm where
    tr: "trace (main env argv) = A @ ?S @ fm" and fm: "list_all (called ''FormatMessageA'') fm"
    unfolding A_def by blast
  have A: "list_ex (succeeded ''LockFileEx'') A" "\<not> list_ex (called ''UnlockFileEx'') A"
    "\<not> list_ex closes_file A" "\<not> list_ex (succeeded ''UnlockFileEx'') A"
    "\<not> list_ex (succeeded ''GetExitCodeProcess'') A"
    by (simp_all add: A_def list_ex_retries called_def succeeded_def lock_call_def)
  have F: "\<not> list_ex (called ''UnlockFileEx'') fm" "\<not> list_ex closes_file fm"
    "\<not> list_ex (succeeded ''UnlockFileEx'') fm" "\<not> list_ex (succeeded ''GetExitCodeProcess'') fm"
    "\<not> list_ex (succeeded ''LockFileEx'') fm"
    using fm by (auto simp: list_all_iff list_ex_iff called_def succeeded_def
        elim!: closes_file.elims)
  have 1: "list_ex (succeeded ''LockFileEx'') (trace (main env argv))"
    unfolding tr using A(1) by simp
  have 2: "\<not> list_ex (called ''UnlockFileEx'') (trace (main env argv)) \<and>
        \<not> list_ex closes_file (trace (main env argv)) \<and>
        exit_code (main env argv) = thrown_code env s e"
    if "fails env argv buf p t j s e"
      "s \<in> set [Resolve, Create, CreateJob, Limit, Attach, Resume, AwaitExit, ReadExitCode]"
  proof -
    note r = supervise_step_fails [OF that(1), of ?f ZeroMemory]
    from r have "fst (try_block env argv) = Inl (Win32Error (step_name s) (thrown_code env s e))"
      by (simp add: try_block_acquired_run [OF assms(2)])
    from main_Win32Error [OF assms(1) this]
    have "exit_code (main env argv) = thrown_code env s e"
      by (simp add: catch_Win32Error_def Let_def)
    moreover from r failed_run_no_release [OF that(2), of env ?f ZeroMemory argv buf p t j e]
    have "\<not> list_ex (called ''UnlockFileEx'') ?S \<and> \<not> list_ex closes_file ?S" by simp
    ultimately show ?thesis unfolding tr using A F by simp
  qed
  have 3: "\<not> list_ex (called ''UnlockFileEx'') (trace (main env argv)) \<and>
        \<not> list_ex closes_file (trace (main env argv)) \<and>
        exit_code (main env argv) = 1"
    if "string_fails env argv buf what"
  proof -
    note r = supervise_string_fails [OF that, of ?f ZeroMemory]
    from r have "fst (try_block env argv) = Inl (StdException what)"
      by (simp add: try_block_acquired_run [OF assms(2)])
    from main_StdException [OF assms(1) this]
    have "exit_code (main env argv) = 1" by (simp add: catch_exception_def)
    moreover from r
    have "\<not> list_ex (called ''UnlockFileEx'') ?S \<and> \<not> list_ex closes_file ?S"
      by (simp add: called_def)
    ultimately show ?thesis unfolding tr using A F by simp
  qed
  have 4: "strictly_before (succeeded ''LockFileEx'') (called ''UnlockFileEx'')
          (trace (main env argv)) \<and>
        strictly_before (succeeded ''GetExitCodeProcess'') (called ''UnlockFileEx'')
          (trace (main env argv)) \<and>
        (list_ex closes_file (trace (main env argv)) \<longleftrightarrow> on_UnlockFileEx env = Success ()) \<and>
        (on_UnlockFileEx env = Success () \<longrightarrow>
           strictly_before (succeeded ''UnlockFileEx'') closes_file (trace (main env argv)))"
    if "exit_code_read env argv buf p t j exitCode"
  proof -
    note r = supervise_released [OF that, of n ZeroMemory]
    from r have u: "list_ex (called ''UnlockFileEx'') ?S"
      unfolding strictly_before_def list_ex_iff
      by (meson in_set_dropD)
    have nl: "\<not> list_ex (succeeded ''LockFileEx'') ?S"
      using supervise_no_lock_call [of env ?f ZeroMemory argv]
      by (auto simp: filter_empty_conv list_ex_iff succeeded_def called_def)
    have a: "strictly_before (succeeded ''LockFileEx'') (called ''UnlockFileEx'')
          (trace (main env argv))"
      using tr A(1) A(2)
    proof (rule strictly_beforeI)
      show "list_ex (called ''UnlockFileEx'') (?S @ fm)" using u by simp
      show "\<not> list_ex (succeeded ''LockFileEx'') (?S @ fm)" using nl F(5) by simp
    qed
    have b: "strictly_before (succeeded ''GetExitCodeProcess'') (called ''UnlockFileEx'')
          (trace (main env argv))"
      unfolding tr
      by (intro strictly_before_prepend strictly_before_append conjunct1 [OF r] F(4) A(2))
    have c: "list_ex closes_file (trace (main env argv)) \<longleftrightarrow> on_UnlockFileEx env = Success ()"
      unfolding tr using r A(3) F(2) by simp
    have d: "strictly_before (succeeded ''UnlockFileEx'') closes_file (trace (main env argv))"
      if "on_UnlockFileEx env = Success ()"
      unfolding tr using r that
      by (intro strictly_before_prepend strictly_before_append F(3) A(3)) simp
    from a b c d show ?thesis by blast
  qed
  have 5: "(\<exists>buf p t j s e. fails env argv buf p t j s e \<and>
          s \<in> set [Resolve, Create, CreateJob, Limit, Attach, Resume, AwaitExit, ReadExitCode])
      \<or> (\<exists>buf what. string_fails env argv buf what)
      \<or> (\<exists>buf p t j exitCode. exit_code_read env argv buf p t j exitCode)"
  proof (cases env ?f ZeroMemory argv rule: supervise_cases)
    case (completed buf p t j exitCode)
    then show ?thesis by blast
  next
    case (string_failed buf what)
    then show ?thesis by blast
  next
    case (step_failed buf p t j s e)
    show ?thesis
    proof (cases "s = Unlock \<or> s = CloseFile")
      case True
      with step_failed(1) have "\<exists>exitCode. exit_code_read env argv buf p t j exitCode"
        by (auto simp: exit_code_read_def split: os_result.splits)
      then show ?thesis by blast
    next
      case False
      then have "s \<in> set [Resolve, Create, CreateJob, Limit, Attach, Resume, AwaitExit, ReadExitCode]"
        by (cases s) simp_all
      with step_failed(1) show ?thesis by blast
    qed
  qed
  from 1 2 3 4 5 show ?thesis by blast
qed

theorem C1_release_amended_witness:
  "3 \<le> length sample_argv \<and>
   acquired not_found sample_argv 1 0 \<and> fails not_found sample_argv [] 0 0 0 Resolve 2 \<and>
   \<not> list_ex (called ''UnlockFileEx'') (trace (main not_found sample_argv)) \<and>
   acquired no_memory sample_argv 1 0 \<and>
   string_fails no_memory sample_argv ''C:/bin/myecho.exe'' ''bad allocation'' \<and>
   \<not> list_ex (called ''UnlockFileEx'') (trace (main no_memory sample_argv)) \<and>
   acquired job_denied sample_argv 1 0 \<and>
   exit_code_read job_denied sample_argv ''C:/bin/myecho.exe'' 2 3 4 7 \<and>
   strictly_before (succeeded ''GetExitCodeProcess'') (called ''UnlockFileEx'')
     (trace (main job_denied sample_argv)) \<and>
   list_ex closes_file (trace (main job_denied sample_argv)) \<and>
   acquired no_std_handles sample_argv 1 0 \<and>
   exit_code_read no_std_handles sample_argv ''C:/bin/myecho.exe'' 2 3 4 7 \<and>
   strictly_before (succeeded ''GetExitCodeProcess'') (called ''UnlockFileEx'')
     (trace (main no_std_handles sample_argv)) \<and>
   list_ex closes_file (trace (main no_std_handles sample_argv))"
proof -
  have h: "3 \<le> length sample_argv" by code_simp
  have a1: "acquired not_found sample_argv 1 0" by code_simp
  have f1: "fails not_found sample_argv [] 0 0 0 Resolve 2" by code_simp
  have a2: "acquired no_memory sample_argv 1 0" by code_simp
  have f2: "string_fails no_memory sample_argv ''C:/bin/myecho.exe'' ''bad allocation''"
    by code_simp
  have a3: "acquired job_denied sample_argv 1 0" by code_simp
  have f3: "exit_code_read job_denied sample_argv ''C:/bin/myecho.exe'' 2 3 4 7" by code_simp
  have u: "on_UnlockFileEx job_denied = Success ()" by code_simp
  have a4: "acquired no_std_handles sample_argv 1 0" by code_simp
  have f4: "exit_code_read no_std_handles sample_argv ''C:/bin/myecho.exe'' 2 3 4 7"
    by code_simp
  have u4: "on_UnlockFileEx no_std_handles = Success ()" by code_simp
  have s: "Resolve \<in> set [Resolve, Create, CreateJob, Limit, Attach, Resume, AwaitExit, ReadExitCode]"
    by simp
  note w1 = C1_release_amended [OF h a1, of "[]" 0 0 0 Resolve 2,
      THEN conjunct2, THEN conjunct1]
  note w2 = C1_release_amended [OF h a2, where buf = "''C:/bin/myecho.exe''"
      and what = "''bad allocation''", THEN conjunct2, THEN conjunct2, THEN conjunct1]
  note w3 = C1_release_amended [OF h a3, where buf = "''C:/bin/myecho.exe''" and p = 2
      and t = 3 and j = 4 and exitCode = 7,
      THEN conjunct2, THEN conjunct2, THEN conjunct2, THEN conjunct1]
  note w4 = C1_release_amended [OF h a4, where buf = "''C:/bin/myecho.exe''" and p = 2
      and t = 3 and j = 4 and exitCode = 7,
      THEN conjunct2, THEN conjunct2, THEN conjunct2, THEN conjunct1]
  have r1: "\<not> list_ex (called ''UnlockFileEx'') (trace (main not_found sample_argv))"
    using w1 f1 s by simp
  have r2: "\<not> list_ex (called ''UnlockFileEx'') (trace (main no_memory sample_argv))"
    using w2 f2 by simp
  have r3: "strictly_before (succeeded ''GetExitCodeProcess'') (called ''UnlockFileEx'')
     (trace (main job_denied sample_argv)) \<and>
   list_ex closes_file (trace (main job_denied sample_argv))"
    using w3 f3 u by simp
  have r4: "strictly_before (succeeded ''GetExitCodeProcess'') (called ''UnlockFileEx'')
     (trace (main no_std_handles sample_argv)) \<and>
   list_ex closes_file (trace (main no_std_handles sample_argv))"
    using w4 f4 u4 by simp
  from h a1 f1 a2 f2 a3 f3 a4 f4 r1 r2 r3 r4 show ?thesis by (intro conjI) simp_all
qed

text \<open>
  The claim as stated fails where the command is not found: the lock has been
  acquired, and the process exits with status 2 without having called
  \<^verbatim>\<open>UnlockFileEx\<close> or \<^verbatim>\<open>CloseHandle\<close>.
\<close>

theorem C1_release_counterexample:
  "list_ex (succeeded ''LockFileEx'') (trace (main not_found sample_argv)) \<and>
   \<not> list_ex (called ''UnlockFileEx'') (trace (main not_found sample_argv)) \<and>
   \<not> list_ex closes_file (trace (main not_found sample_argv)) \<and>
   exit_code (main not_found sample_argv) = 2"
  by code_simp

subsection \<open>Exit status and diagnostics\<close>






subsection \<open>Failures that are fatal and failures that are not\<close>

lemma acquire_env_cong:
  "on_LockFileEx env' = on_LockFileEx env \<Longrightarrow> acquire env' f ol i = acquire env f ol i"
proof (induction env f ol i rule: acquire.induct)
  case (1 env f ol i)
  show ?case
  proof (cases "i < 300")
    case True
    show ?thesis
    proof (cases "on_LockFileEx env i")
      case (Success u)
      with True 1(2) show ?thesis by (simp add: acquire_step_ok)
    next
      case (Failure e)
      show ?thesis
      proof (cases "e = ERROR_LOCK_VIOLATION")
        case False
        with True Failure 1(2) show ?thesis by (simp add: acquire_step_error)
      next
        case e: True
        from 1(1) [OF True refl 1(2)]
        have "acquire env' f ol (i + 1) = acquire env f ol (i + 1)" .
        with True Failure e 1(2) show ?thesis by (simp add: acquire_step_busy)
      qed
    qed
  next
    case False
    then show ?thesis by (simp add: acquire_step_end)
  qed
qed

lemma supervise_attach_denied:
  "on_AssignProcessToJobObject env = Failure ERROR_ACCESS_DENIED \<longrightarrow>
   fst (supervise (env\<lparr>on_AssignProcessToJobObject := Success ()\<rparr>) f ol argv)
     = fst (supervise env f ol argv) \<and>
   map fst (snd (supervise (env\<lparr>on_AssignProcessToJobObject := Success ()\<rparr>) f ol argv))
     = map fst (snd (supervise env f ol argv))"
  by (simp add: supervise_unfold split: os_result.split prod.split option.split)

lemma supervise_std_handles:
  "fst (supervise (env\<lparr>on_GetStdHandle := g\<rparr>) f ol argv) = fst (supervise env f ol argv) \<and>
   map fst (snd (supervise (env\<lparr>on_GetStdHandle := g\<rparr>) f ol argv))
     = map fst (snd (supervise env f ol argv))"
  by (simp add: supervise_unfold split: os_result.split prod.split option.split)

lemma set_retries:
  "set (retries f ol k) \<subseteq> {(lock_call f ol, Some ERROR_LOCK_VIOLATION), (Sleep 1000, None)}"
  by (induction k) (auto simp: retries_0 retries_Suc)

text \<open>
  Two worlds that answer alike where the lock is taken, and in which the run after
  the lock ends alike after the same calls, give the same end and the same calls.
\<close>

lemma try_block_cong:
  assumes c: "on_CreateFileA env' = on_CreateFileA env"
    and l: "on_LockFileEx env' = on_LockFileEx env"
    and s: "\<And>f. fst (supervise env' f ZeroMemory argv) = fst (supervise env f ZeroMemory argv) \<and>
      map fst (snd (supervise env' f ZeroMemory argv))
        = map fst (snd (supervise env f ZeroMemory argv))"
  shows "fst (try_block env' argv) = fst (try_block env argv) \<and>
    map fst (snd (try_block env' argv)) = map fst (snd (try_block env argv))"
proof (cases "on_CreateFileA env (argv ! 1)")
  case (Failure e)
  then have "on_CreateFileA env' (argv ! 1) = Failure e" using c by simp
  with Failure show ?thesis by (simp add: try_block_not_opened)
next
  case (Success n)
  then have o: "on_CreateFileA env' (argv ! 1) = Success n" using c by simp
  have a: "acquire env' (FileHandle n) ZeroMemory 0 = acquire env (FileHandle n) ZeroMemory 0"
    using l by (rule acquire_env_cong)
  obtain r tr where r: "acquire env (FileHandle n) ZeroMemory 0 = (r, tr)"
    by (cases "acquire env (FileHandle n) ZeroMemory 0")
  show ?thesis
  proof (cases r)
    case (Inl x)
    with r a show ?thesis
      by (simp add: try_block_lock_error [OF Success] try_block_lock_error [OF o])
  next
    case (Inr lockAcquired)
    show ?thesis
    proof (cases lockAcquired)
      case True
      with r a Inr show ?thesis
        using s [of "FileHandle n"]
        by (simp add: try_block_acquired [OF Success] try_block_acquired [OF o])
    next
      case False
      with r a Inr show ?thesis
        by (simp add: try_block_timeout [OF Success] try_block_timeout [OF o])
    qed
  qed
qed

lemma supervise_failures_fatal:
  assumes "ev \<in> set (snd (supervise env f ol argv))" "snd ev = Some e"
    "\<not> failed_with ''AssignProcessToJobObject'' ERROR_ACCESS_DENIED ev"
    "\<not> called ''GetStdHandle'' ev"
  shows "\<exists>what code. fst (supervise env f ol argv) = Inl (Win32Error what code)"
proof (cases env f ol argv rule: supervise_cases)
  case (completed buf p t j exitCode)
  with assms show ?thesis
    by (auto simp: stage_defs completed_run_def failed_with_def called_def)
next
  case (step_failed buf p t j s e')
  then show ?thesis by simp
next
  case (string_failed buf what)
  with assms show ?thesis by (auto split: if_splits)
qed

lemma try_block_failures_fatal:
  assumes "ev \<in> set (snd (try_block env argv))" "snd ev = Some e"
    "\<not> failed_with ''AssignProcessToJobObject'' ERROR_ACCESS_DENIED ev"
    "\<not> failed_with ''LockFileEx'' ERROR_LOCK_VIOLATION ev"
    "\<not> called ''GetStdHandle'' ev"
  shows "\<exists>what code. fst (try_block env argv) = Inl (Win32Error what code)"
proof (cases env argv rule: try_block_cases)
  case (acquired n k)
  with assms(1,2,4) set_retries [of "FileHandle n" ZeroMemory k]
  have "ev \<in> set (snd (supervise env (FileHandle n) ZeroMemory argv))"
    by (auto simp: failed_with_def lock_call_def)
  from supervise_failures_fatal [OF this assms(2,3,5)] acquired show ?thesis by simp
qed simp_all

text \<open>
  Claim C8, as amended. When \<^verbatim>\<open>AssignProcessToJobObject\<close> fails with
  \<^verbatim>\<open>ERROR_ACCESS_DENIED\<close>, the \<^verbatim>\<open>try\<close> block ends as it would have ended had the
  call succeeded, after the same calls; when it fails with any other code, a
  \<^verbatim>\<open>Win32Error\<close> with that code is thrown. A failure, with \<^verbatim>\<open>ERROR_ACCESS_DENIED\<close> or
  any other code, of every other call whose result the program tests makes the
  \<^verbatim>\<open>try\<close> block throw the \<^verbatim>\<open>Win32Error\<close> of that call: \<^verbatim>\<open>CreateFileA\<close>, \<^verbatim>\<open>LockFileEx\<close>
  with an error other than contention, and each step after the lock has been taken.
  Contention at \<^verbatim>\<open>LockFileEx\<close> does not end the run when a later attempt succeeds,
  and is thrown when it has met all 300 attempts. The results of the three
  \<^verbatim>\<open>GetStdHandle\<close> calls are not tested: whatever they are, the \<^verbatim>\<open>try\<close> block ends
  the same way after the same calls, so their failure is tolerated too.
\<close>

theorem C8_tolerated_failures_amended:
  "(on_AssignProcessToJobObject env = Failure ERROR_ACCESS_DENIED \<longrightarrow>
      fst (try_block (env\<lparr>on_AssignProcessToJobObject := Success ()\<rparr>) argv)
        = fst (try_block env argv) \<and>
      map fst (snd (try_block (env\<lparr>on_AssignProcessToJobObject := Success ()\<rparr>) argv))
        = map fst (snd (try_block env argv)))
   \<and> (acquired env argv n k \<and> job_limited env argv buf p t j \<and>
      on_AssignProcessToJobObject env = Failure e \<and> e \<noteq> ERROR_ACCESS_DENIED \<longrightarrow>
      fst (try_block env argv) = Inl (Win32Error ''AssignProcessToJobObject'' e))
   \<and> (on_CreateFileA env (argv ! 1) = Failure e \<longrightarrow>
      fst (try_block env argv) = Inl (Win32Error ''CreateFileA'' e))
   \<and> (on_CreateFileA env (argv ! 1) = Success n \<and> k < 300 \<and> contended env k \<and>
      on_LockFileEx env k = Failure e \<and> e \<noteq> ERROR_LOCK_VIOLATION \<longrightarrow>
      fst (try_block env argv) = Inl (Win32Error ''LockFileEx'' e))
   \<and> (on_CreateFileA env (argv ! 1) = Success n \<and> contended env 300 \<longrightarrow>
      fst (try_block env argv) = Inl (Win32Error ''LockFileEx'' ERROR_LOCK_VIOLATION))
   \<and> (acquired env argv n k \<longrightarrow>
      fst (try_block env argv) = fst (supervise env (FileHandle n) ZeroMemory argv))
   \<and> (acquired env argv n k \<and> fails env argv buf p t j s e \<longrightarrow>
      fst (try_block env argv) = Inl (Win32Error (step_name s) (thrown_code env s e)))
   \<and> (fst (try_block (env\<lparr>on_GetStdHandle := g\<rparr>) argv) = fst (try_block env argv) \<and>
      map fst (snd (try_block (env\<lparr>on_GetStdHandle := g\<rparr>) argv))
        = map fst (snd (try_block env argv)))
   \<and> (ev \<in> set (snd (try_block env argv)) \<and> snd ev = Some e \<and>
      \<not> failed_with ''AssignProcessToJobObject'' ERROR_ACCESS_DENIED ev \<and>
      \<not> failed_with ''LockFileEx'' ERROR_LOCK_VIOLATION ev \<and>
      \<not> called ''GetStdHandle'' ev \<longrightarrow>
      (\<exists>what code. fst (try_block env argv) = Inl (Win32Error what code)))"
proof -
  have 1: "fst (try_block (env\<lparr>on_AssignProcessToJobObject := Success ()\<rparr>) argv)
        = fst (try_block env argv) \<and>
      map fst (snd (try_block (env\<lparr>on_AssignProcessToJobObject := Success ()\<rparr>) argv))
        = map fst (snd (try_block env argv))"
    if "on_AssignProcessToJobObject env = Failure ERROR_ACCESS_DENIED"
    by (rule try_block_cong) (use that supervise_attach_denied [of env] in simp_all)
  have 7: "fst (try_block env argv) = Inl (Win32Error (step_name s) (thrown_code env s e))"
    if "acquired env argv n k" "fails env argv buf p t j s e" for s e
    using supervise_step_fails [OF that(2), of "FileHandle n" ZeroMemory]
    by (simp add: try_block_acquired_run [OF that(1)])
  have 2: "fst (try_block env argv) = Inl (Win32Error ''AssignProcessToJobObject'' e)"
    if "acquired env argv n k" "job_limited env argv buf p t j"
      "on_AssignProcessToJobObject env = Failure e" "e \<noteq> ERROR_ACCESS_DENIED"
    using 7 [OF that(1), of Attach e] that(2-4) by simp
  have 3: "fst (try_block env argv) = Inl (Win32Error ''CreateFileA'' e)"
    if "on_CreateFileA env (argv ! 1) = Failure e"
    using try_block_not_opened [OF that] by simp
  have 4: "fst (try_block env argv) = Inl (Win32Error ''LockFileEx'' e)"
    if "on_CreateFileA env (argv ! 1) = Success n" "k < 300" "contended env k"
      "on_LockFileEx env k = Failure e" "e \<noteq> ERROR_LOCK_VIOLATION"
    using try_block_lock_error [OF that(1) acquire_error [OF that(2-5)]] by simp
  have 5: "fst (try_block env argv) = Inl (Win32Error ''LockFileEx'' ERROR_LOCK_VIOLATION)"
    if "on_CreateFileA env (argv ! 1) = Success n" "contended env 300"
    using try_block_exhausted [OF that] by simp
  have 6: "fst (try_block env argv) = fst (supervise env (FileHandle n) ZeroMemory argv)"
    if "acquired env argv n k"
    by (simp add: try_block_acquired_run [OF that])
  have 8: "fst (try_block (env\<lparr>on_GetStdHandle := g\<rparr>) argv) = fst (try_block env argv) \<and>
      map fst (snd (try_block (env\<lparr>on_GetStdHandle := g\<rparr>) argv))
        = map fst (snd (try_block env argv))"
    by (rule try_block_cong) (use supervise_std_handles [of g env] in simp_all)
  have 9: "\<exists>what code. fst (try_block env argv) = Inl (Win32Error what code)"
    if "ev \<in> set (snd (try_block env argv))" "snd ev = Some e"
      "\<not> failed_with ''AssignProcessToJobObject'' ERROR_ACCESS_DENIED ev"
      "\<not> failed_with ''LockFileEx'' ERROR_LOCK_VIOLATION ev"
      "\<not> called ''GetStdHandle'' ev"
    using that by (rule try_block_failures_fatal)
  have c1: "on_AssignProcessToJobObject env = Failure ERROR_ACCESS_DENIED \<longrightarrow>
      fst (try_block (env\<lparr>on_AssignProcessToJobObject := Success ()\<rparr>) argv)
        = fst (try_block env argv) \<and>
      map fst (snd (try_block (env\<lparr>on_AssignProcessToJobObject := Success ()\<rparr>) argv))
        = map fst (snd (try_block env argv))"
    using 1 by (rule impI)
  have c2: "acquired env argv n k \<and> job_limited env argv buf p t j \<and>
      on_AssignProcessToJobObject env = Failure e \<and> e \<noteq> ERROR_ACCESS_DENIED \<longrightarrow>
      fst (try_block env argv) = Inl (Win32Error ''AssignProcessToJobObject'' e)"
    by (intro impI, elim conjE, rule 2)
  have c3: "on_CreateFileA env (argv ! 1) = Failure e \<longrightarrow>
      fst (try_block env argv) = Inl (Win32Error ''CreateFileA'' e)"
    using 3 by (rule impI)
  have c4: "on_CreateFileA env (argv ! 1) = Success n \<and> k < 300 \<and> contended env k \<and>
      on_LockFileEx env k = Failure e \<and> e \<noteq> ERROR_LOCK_VIOLATION \<longrightarrow>
      fst (try_block env argv) = Inl (Win32Error ''LockFileEx'' e)"
    by (intro impI, elim conjE, rule 4)
  have c5: "on_CreateFileA env (argv ! 1) = Success n \<and> contended env 300 \<longrightarrow>
      fst (try_block env argv) = Inl (Win32Error ''LockFileEx'' ERROR_LOCK_VIOLATION)"
    by (intro impI, elim conjE, rule 5)
  have c6: "acquired env argv n k \<longrightarrow>
      fst (try_block env argv) = fst (supervise env (FileHandle n) ZeroMemory argv)"
    using 6 by (rule impI)
  have c7: "acquired env argv n k \<and> fails env argv buf p t j s e \<longrightarrow>
      fst (try_block env argv) = Inl (Win32Error (step_name s) (thrown_code env s e))"
    by (intro impI, elim conjE, rule 7)
  have c9: "ev \<in> set (snd (try_block env argv)) \<and> snd ev = Some e \<and>
      \<not> failed_with ''AssignProcessToJobObject'' ERROR_ACCESS_DENIED ev \<and>
      \<not> failed_with ''LockFileEx'' ERROR_LOCK_VIOLATION ev \<and>
      \<not> called ''GetStdHandle'' ev \<longrightarrow>
      (\<exists>what code. fst (try_block env argv) = Inl (Win32Error what code))"
    by (intro impI, elim conjE, rule 9)
  from c1 c2 c3 c4 c5 c6 c7 8 c9 show ?thesis
    by (intro conjI) (assumption | erule conjunct1 | erule conjunct2)+
qed

theorem C8_tolerated_failures_amended_witness:
  "on_AssignProcessToJobObject job_denied = Failure ERROR_ACCESS_DENIED \<and>
   fst (try_block (job_denied\<lparr>on_AssignProcessToJobObject := Success ()\<rparr>) sample_argv)
     = fst (try_block job_denied sample_argv) \<and>
   acquired job_refused sample_argv 1 0 \<and>
   job_limited job_refused sample_argv ''C:/bin/myecho.exe'' 2 3 4 \<and>
   on_AssignProcessToJobObject job_refused = Failure 6 \<and> (6::dword) \<noteq> ERROR_ACCESS_DENIED \<and>
   fst (try_block job_refused sample_argv) = Inl (Win32Error ''AssignProcessToJobObject'' 6) \<and>
   acquired not_found sample_argv 1 0 \<and> fails not_found sample_argv [] 0 0 0 Resolve 2 \<and>
   fst (try_block not_found sample_argv) = Inl (Win32Error ''PathSearchAndQualifyA'' 2) \<and>
   on_CreateFileA busy_forever (sample_argv ! 1) = Success 1 \<and> contended busy_forever 300 \<and>
   fst (try_block busy_forever sample_argv) = Inl (Win32Error ''LockFileEx'' ERROR_LOCK_VIOLATION)"
proof -
  have d: "on_AssignProcessToJobObject job_denied = Failure ERROR_ACCESS_DENIED"
    by code_simp
  have a1: "acquired job_refused sample_argv 1 0" by code_simp
  have l1: "job_limited job_refused sample_argv ''C:/bin/myecho.exe'' 2 3 4" by code_simp
  have r1: "on_AssignProcessToJobObject job_refused = Failure 6" by code_simp
  have e: "(6::dword) \<noteq> ERROR_ACCESS_DENIED" by (simp add: ERROR_ACCESS_DENIED_def)
  have a2: "acquired not_found sample_argv 1 0" by code_simp
  have f2: "fails not_found sample_argv [] 0 0 0 Resolve 2" by code_simp
  have o: "on_CreateFileA busy_forever (sample_argv ! 1) = Success 1" by code_simp
  have c: "contended busy_forever 300" by code_simp
  note w1 = C8_tolerated_failures_amended [where env = job_denied and argv = sample_argv,
      THEN conjunct1]
  note w2 = C8_tolerated_failures_amended [where env = job_refused and argv = sample_argv
      and n = 1 and k = 0 and buf = "''C:/bin/myecho.exe''" and p = 2 and t = 3 and j = 4
      and e = 6, THEN conjunct2, THEN conjunct1]
  note w3 = C8_tolerated_failures_amended [where env = not_found and argv = sample_argv
      and n = 1 and k = 0 and buf = "[]" and p = 0 and t = 0 and j = 0 and s = Resolve and e = 2,
      THEN conjunct2, THEN conjunct2, THEN conjunct2, THEN conjunct2, THEN conjunct2,
      THEN conjunct2, THEN conjunct1]
  note w4 = C8_tolerated_failures_amended [where env = busy_forever and argv = sample_argv
      and n = 1, THEN conjunct2, THEN conjunct2, THEN conjunct2, THEN conjunct2, THEN conjunct1]
  have x1: "fst (try_block (job_denied\<lparr>on_AssignProcessToJobObject := Success ()\<rparr>) sample_argv)
     = fst (try_block job_denied sample_argv)"
    using w1 d by simp
  have x2: "fst (try_block job_refused sample_argv)
     = Inl (Win32Error ''AssignProcessToJobObject'' 6)"
    using w2 a1 l1 r1 e by simp
  have x3: "fst (try_block not_found sample_argv) = Inl (Win32Error ''PathSearchAndQualifyA'' 2)"
    using w3 a2 f2 by simp
  have x4: "fst (try_block busy_forever sample_argv)
     = Inl (Win32Error ''LockFileEx'' ERROR_LOCK_VIOLATION)"
    using w4 o c by simp
  from d a1 l1 r1 e a2 f2 o c x1 x2 x3 x4 show ?thesis by (intro conjI) simp_all
qed

text \<open>
  The claim as stated fails where the standard handles cannot be had: each of the
  three \<^verbatim>\<open>GetStdHandle\<close> calls fails with error 6, and the run completes with the
  child's exit code 7 and nothing on standard error. So the denied attachment is
  not the only failure of a call that the program tolerates.
\<close>

theorem C8_tolerated_failures_counterexample:
  "on_GetStdHandle no_std_handles STD_ERROR_HANDLE = Failure 6 \<and>
   on_GetStdHandle no_std_handles STD_OUTPUT_HANDLE = Failure 6 \<and>
   on_GetStdHandle no_std_handles STD_INPUT_HANDLE = Failure 6 \<and>
   list_ex (failed_with ''GetStdHandle'' 6) (trace (main no_std_handles sample_argv)) \<and>
   fst (try_block no_std_handles sample_argv) = Inr 7 \<and>
   exit_code (main no_std_handles sample_argv) = 7 \<and>
   stderr (main no_std_handles sample_argv) = []"
  by code_simp

end
